theory Spec2Isabelle
  imports Main
begin

section \<open>The intermediate representation read by simplifyDefUse.cpp\<close>

text \<open>
  The pass works on IR nodes through pointers. A node carries its own id, and two nodes are
  the same pointer exactly when they are equal as values (id included), so two assignments
  with the same text and different ids are different nodes.

  Only the node classes that \<^verbatim>\<open>FindUninitialized\<close> and \<^verbatim>\<open>RemoveUnused\<close> name, and the
  few that carry them (switch cases, key elements, declarations inside blocks), are
  modelled. The result of \<^verbatim>\<open>MethodInstance::resolve\<close> is stored in the call node: P4 has no
  recursion, so the callees of a call form a finite tree below it.
\<close>

type_synonym node_id = nat
type_synonym cstring = string
type_synonym SourceInfo = nat

datatype Direction = NoDirection | In | Out | InOut

text \<open>The classes of types the pass tests for with \<^verbatim>\<open>is<...>()\<close>; \<open>Type_Base\<close> stands
  for every class derived from \<^verbatim>\<open>IR::Type_Base\<close> (bit strings, booleans, ...).\<close>

datatype ir_type = Type_Void | Type_Base | Type_Header | Type_Stack | Type_Struct | Type_Method

datatype Parameter = Parameter node_id cstring Direction

datatype expr =
    Constant node_id int
  | BoolLiteral node_id bool
  | TypeNameExpression node_id cstring
  | DefaultExpression node_id
  | PathExpression node_id cstring
  | Member node_id expr cstring
  | ArrayIndex node_id expr expr
  | Slice slice
  | Operation_Unary node_id expr
  | Operation_Binary node_id expr expr
  | Mux node_id expr expr expr
  | MethodCallExpression node_id expr method_instance
and slice =
    MkSlice node_id expr nat nat
and method_instance =
    MethodInstance mi_kind "(Direction \<times> expr) list"
and mi_kind =
    BuiltInMethod cstring expr
  | ActionCall decl
  | ApplyMethod "decl option"
  | ExternMethod "decl list"
  | OtherMethod
and stmt =
    AssignmentStatement node_id SourceInfo expr expr
  | ReturnStatement node_id "expr option"
  | ExitStatement node_id
  | MethodCallStatement node_id SourceInfo expr
  | BlockStatement node_id "stat_or_decl list"
  | IfStatement node_id expr stmt "stmt option"
  | SwitchStatement node_id expr "switch_case list"
  | EmptyStatement node_id
and switch_case =
    SwitchCase node_id expr "stmt option"
and stat_or_decl =
    Stat stmt
  | Decl decl
and key_element =
    KeyElement node_id expr expr
and decl =
    Function node_id cstring ir_type "Parameter list" stmt
  | Method node_id cstring
  | P4Action node_id cstring "Parameter list" stmt
  | P4Table node_id cstring "key_element list option" "expr list"
  | P4Control node_id cstring "Parameter list" "decl list" stmt
  | P4Parser node_id cstring "Parameter list" "decl list" "decl list"
  | ParserState node_id cstring "stat_or_decl list" "expr option"
  | Declaration_Instance node_id cstring "stmt option"
  | Declaration_Variable node_id cstring "expr option"

text \<open>
  \<open>MkSlice i e0 h l\<close> is \<^verbatim>\<open>e0[h:l]\<close>; \<open>h\<close> and \<open>l\<close> are what \<^verbatim>\<open>getH()\<close> and \<^verbatim>\<open>getL()\<close>
  return. \<open>MethodInstance k sub\<close> is the resolved call: \<open>sub\<close> lists the parameters in
  argument order, each with the argument \<^verbatim>\<open>substitution.lookup\<close> gives. \<open>ApplyMethod (Some t)\<close>
  is an apply with \<^verbatim>\<open>isTableApply()\<close> on table \<open>t\<close>; \<open>ExternMethod ds\<close> has \<^verbatim>\<open>mayCall()\<close> = \<open>ds\<close>.
\<close>

datatype node =
    N_Expr expr
  | N_Stmt stmt
  | N_Decl decl
  | N_SwitchCase switch_case
  | N_KeyElement key_element

fun getH :: "slice \<Rightarrow> nat" where
  "getH (MkSlice i e0 h l) = h"

fun getL :: "slice \<Rightarrow> nat" where
  "getL (MkSlice i e0 h l) = l"

fun slice_e0 :: "slice \<Rightarrow> expr" where
  "slice_e0 (MkSlice i e0 h l) = e0"

fun getName :: "decl \<Rightarrow> cstring" where
  "getName (Function i n rt ps b) = n"
| "getName (Method i n) = n"
| "getName (P4Action i n ps b) = n"
| "getName (P4Table i n k as) = n"
| "getName (P4Control i n ps ls b) = n"
| "getName (P4Parser i n ps ls ss) = n"
| "getName (ParserState i n cs sel) = n"
| "getName (Declaration_Instance i n ini) = n"
| "getName (Declaration_Variable i n ini) = n"

section \<open>Program points\<close>

text \<open>
  Modelled from the spec: \<^verbatim>\<open>ProgramPoint\<close> and \<^verbatim>\<open>ProgramPoints\<close> are declared in
  def_use.h, which is not among the sources. A program point is the stack of nodes of a
  call context followed by a node; the empty stack is the before-start sentinel; \<^verbatim>\<open>last()\<close>
  is the top node, null for before-start; \<^verbatim>\<open>after()\<close> pushes a null node. A set of
  program points is a list here: the pass only iterates over it and asks whether it holds
  before-start.
\<close>

type_synonym ProgramPoint = "node option list"
type_synonym ProgramPoints = "ProgramPoint list"

definition beforeStart :: ProgramPoint where
  "beforeStart = []"

definition isBeforeStart :: "ProgramPoint \<Rightarrow> bool" where
  "isBeforeStart p = (p = [])"

definition pp_last :: "ProgramPoint \<Rightarrow> node option" where
  "pp_last p = (if p = [] then None else last p)"

definition pp_node :: "node \<Rightarrow> ProgramPoint" where
  "pp_node n = [Some n]"

definition pp_ctx :: "ProgramPoint \<Rightarrow> node \<Rightarrow> ProgramPoint" where
  "pp_ctx c n = c @ [Some n]"

definition pp_after :: "ProgramPoint \<Rightarrow> ProgramPoint" where
  "pp_after p = p @ [None]"

definition containsBeforeStart :: "ProgramPoints \<Rightarrow> bool" where
  "containsBeforeStart ps = (beforeStart \<in> set ps)"

section \<open>Internal errors\<close>

text \<open>Every \<^verbatim>\<open>BUG\<close>, \<^verbatim>\<open>BUG_CHECK\<close> and null dereference the pass can reach aborts the
  compilation; a function that can abort returns \<open>bug + 'a\<close>.\<close>

datatype bug =
    BUG_no_locations expr
  | BUG_unreachable_expression
  | BUG_tracker_active
  | BUG_nonempty_context
  | BUG_unexpected_lhs expr
  | BUG_operation_on_lhs expr
  | BUG_action_list_entry expr
  | BUG_no_type expr
  | BUG_no_declaration cstring
  | BUG_too_many_side_effects expr
  | BUG_expected_method_call node
  | BUG_null_state cstring

text \<open>\<open>bindE m f\<close> runs \<open>f\<close> on the result of \<open>m\<close> unless \<open>m\<close> has aborted.\<close>

abbreviation bindE :: "bug + 'a \<Rightarrow> ('a \<Rightarrow> bug + 'b) \<Rightarrow> bug + 'b" where
  "bindE m f \<equiv> (case m of Inl e \<Rightarrow> Inl e | Inr x \<Rightarrow> f x)"

section \<open>HasUses and its SliceTracker\<close>

record SliceTracker =
  trackedSlice :: "slice option"
  active :: bool

record HasUses =
  used :: "node set"
  tracker :: SliceTracker

definition SliceTracker_default :: SliceTracker where
  "SliceTracker_default = \<lparr>trackedSlice = None, active = False\<rparr>"

definition SliceTracker_of :: "slice \<Rightarrow> SliceTracker" where
  "SliceTracker_of sl = \<lparr>trackedSlice = Some sl, active = True\<rparr>"

definition isActive :: "SliceTracker \<Rightarrow> bool" where
  "isActive t = active t"

text \<open>\<^verbatim>\<open>overwritesPrevious\<close> dereferences \<^verbatim>\<open>trackedSlice\<close>; it is only called on an active
  tracker, whose constructor has set the pointer.\<close>

definition overwritesPrevious :: "SliceTracker \<Rightarrow> slice \<Rightarrow> bool" where
  "overwritesPrevious t previous =
     (case trackedSlice t of
        None \<Rightarrow> False
      | Some cur \<Rightarrow> getH cur \<ge> getH previous \<and> getL cur \<le> getL previous)"

definition overwrites :: "SliceTracker \<Rightarrow> ProgramPoint \<Rightarrow> bool" where
  "overwrites t previous =
     (if \<not> isActive t then False
      else if isBeforeStart previous then False
      else (case pp_last previous of
              Some (N_Stmt (AssignmentStatement i src (Slice slice_stmt) r)) \<Rightarrow>
                overwritesPrevious t slice_stmt
            | _ \<Rightarrow> False))"

fun HasUses_add :: "HasUses \<Rightarrow> ProgramPoints \<Rightarrow> HasUses" where
  "HasUses_add H [] = H"
| "HasUses_add H (e # points) =
     (if overwrites (tracker H) e then HasUses_add H points
      else (case pp_last e of
              None \<Rightarrow> HasUses_add H points
            | Some l \<Rightarrow> HasUses_add (H\<lparr>used := insert l (used H)\<rparr>) points))"

definition hasUses_of :: "HasUses \<Rightarrow> node \<Rightarrow> bool" where
  "hasUses_of H n = (n \<in> used H)"

definition watchForOverwrites :: "HasUses \<Rightarrow> slice \<Rightarrow> bug + HasUses" where
  "watchForOverwrites H sl =
     (if isActive (tracker H) then Inl BUG_tracker_active
      else Inr (H\<lparr>tracker := SliceTracker_of sl\<rparr>))"

definition doneWatching :: "HasUses \<Rightarrow> HasUses" where
  "doneWatching H = H\<lparr>tracker := SliceTracker_default\<rparr>"

section \<open>RemoveUnused\<close>

text \<open>
  The side-effect analysis (sideEffects.h) is not among the sources: \<open>se\<close> gives, for a
  right-hand side, the pair \<^verbatim>\<open>(nodeWithSideEffect, sideEffectCount)\<close> the \<^verbatim>\<open>SideEffects\<close>
  visitor ends with, and \<open>hse\<close> is \<^verbatim>\<open>SideEffects::hasSideEffect\<close>. \<open>original\<close> is
  \<^verbatim>\<open>getOriginal()\<close>, and \<open>fresh\<close> the id of the node a \<^verbatim>\<open>new\<close> creates. A statement of
  another class is returned as it is.
\<close>

fun RemoveUnused_postorder ::
  "(expr \<Rightarrow> node option \<times> nat) \<Rightarrow> (expr \<Rightarrow> bool) \<Rightarrow> HasUses \<Rightarrow> node_id \<Rightarrow> node \<Rightarrow> stmt
     \<Rightarrow> bug + stmt" where
  "RemoveUnused_postorder se hse H fresh original (AssignmentStatement i src l r) =
     (if \<not> hasUses_of H original then
        (case fst (se r) of
           Some n \<Rightarrow>
             (if snd (se r) \<noteq> 1 then Inl (BUG_too_many_side_effects r)
              else (case n of
                      N_Expr (MethodCallExpression j m mi) \<Rightarrow>
                        Inr (MethodCallStatement fresh src (MethodCallExpression j m mi))
                    | _ \<Rightarrow> Inl (BUG_expected_method_call n)))
         | None \<Rightarrow> Inr (EmptyStatement fresh))
      else Inr (AssignmentStatement i src l r))"
| "RemoveUnused_postorder se hse H fresh original (MethodCallStatement i src mc) =
     (if \<not> hasUses_of H original then
        (if hse mc then Inr (MethodCallStatement i src mc)
         else Inr (EmptyStatement fresh))
      else Inr (MethodCallStatement i src mc))"
| "RemoveUnused_postorder se hse H fresh original s = Inr s"


section \<open>The collaborators of FindUninitialized\<close>

text \<open>
  The reaching definitions, the storage map, the location sets, the reference map, the type
  map and the table-apply solver are computed by code that is not among the sources (def_use.h,
  typeMap.h, referenceMap.h, tableApply.h). They are parameters: \<open>'st\<close> is a storage location,
  \<open>'ls\<close> a \<^verbatim>\<open>LocationSet\<close>, \<open>'df\<close> a \<^verbatim>\<open>Definitions\<close>.

  \<^item> \<open>getDefinitions p\<close> is \<^verbatim>\<open>definitions->getDefinitions(p, true)\<close>;
  \<^item> \<open>getStorage d\<close> is \<^verbatim>\<open>storageMap->getStorage\<close> of the declaration with id \<open>d\<close>, \<open>None\<close> for null;
  \<^item> \<open>storageTypeIsEmpty st\<close> is \<^verbatim>\<open>typeMap->typeIsEmpty(st->type)\<close>;
  \<^item> \<open>getDeclaration e\<close> is \<^verbatim>\<open>refMap->getDeclaration(e->path, true)\<close> for the path expression
    \<open>e\<close>, and \<open>getType e\<close> is \<^verbatim>\<open>typeMap->getType(e, true)\<close>: \<open>None\<close> is where they raise a BUG;
  \<^item> \<open>validFieldName\<close> is \<^verbatim>\<open>StorageFactory::validFieldName\<close>.
\<close>

record ('st, 'ls, 'df) collaborators =
  getDefinitions :: "ProgramPoint \<Rightarrow> 'df"
  getPoints :: "'df \<Rightarrow> 'ls \<Rightarrow> ProgramPoints"
  isUnreachable :: "'df \<Rightarrow> bool"
  joinDefinitions :: "'df \<Rightarrow> 'df \<Rightarrow> 'df"
  getStorage :: "node_id \<Rightarrow> 'st option"
  storageTypeIsEmpty :: "'st \<Rightarrow> bool"
  removeHeaders :: "'st \<Rightarrow> 'ls"
  LocationSet_of :: "'st \<Rightarrow> 'ls"
  LocationSet_empty :: "'ls"
  getField :: "'ls \<Rightarrow> cstring \<Rightarrow> 'ls"
  getIndex :: "'ls \<Rightarrow> int \<Rightarrow> 'ls"
  getArrayLastIndex :: "'ls \<Rightarrow> 'ls"
  getValidField :: "'ls \<Rightarrow> 'ls"
  isEmpty :: "'ls \<Rightarrow> bool"
  getDeclaration :: "expr \<Rightarrow> node_id option"
  getType :: "expr \<Rightarrow> ir_type option"
  isHit :: "expr \<Rightarrow> bool"
  isActionRun :: "expr \<Rightarrow> bool"
  validFieldName :: cstring

text \<open>Modelled from the spec: the member and state names of ir.def, which is not among
  the sources: the stack members \<^verbatim>\<open>next\<close>, \<^verbatim>\<open>last\<close>, \<^verbatim>\<open>lastIndex\<close>, the built-in methods
  \<^verbatim>\<open>push_front\<close>, \<^verbatim>\<open>pop_front\<close>, \<^verbatim>\<open>isValid\<close>, and the parser states \<^verbatim>\<open>accept\<close> and \<^verbatim>\<open>reject\<close>.\<close>

definition Type_Stack_next :: cstring where "Type_Stack_next = ''next''"
definition Type_Stack_last :: cstring where "Type_Stack_last = ''last''"
definition Type_Stack_lastIndex :: cstring where "Type_Stack_lastIndex = ''lastIndex''"
definition Type_Stack_push_front :: cstring where "Type_Stack_push_front = ''push_front''"
definition Type_Stack_pop_front :: cstring where "Type_Stack_pop_front = ''pop_front''"
definition Type_Header_isValid :: cstring where "Type_Header_isValid = ''isValid''"
definition ParserState_accept :: cstring where "ParserState_accept = ''accept''"
definition ParserState_reject :: cstring where "ParserState_reject = ''reject''"

section \<open>Diagnostics\<close>

text \<open>\<^verbatim>\<open>::warning\<close> and \<^verbatim>\<open>::error\<close> append to the diagnostics sink: the error type, the format
  string and the arguments.\<close>

datatype ErrorType =
  WARN_UNINITIALIZED_USE | WARN_UNINITIALIZED_OUT_PARAM | WARN_UNINITIALIZED | ERR_INSUFFICIENT

datatype diag_arg = A_Expr expr | A_Param Parameter | A_Name cstring | A_Decl decl

datatype diagnostic = Diagnostic ErrorType string "diag_arg list"

section \<open>FindUninitialized: state and helpers\<close>

record 'ls FindUninitialized =
  "context" :: ProgramPoint
  lhs :: bool
  currentPoint :: ProgramPoint
  readLocations :: "expr \<rightharpoonup> 'ls"
  hasUses :: HasUses
  unreachable :: bool
  virtualMethod :: bool
  diagnostics :: "diagnostic list"

definition report :: "diagnostic \<Rightarrow> 'ls FindUninitialized \<Rightarrow> 'ls FindUninitialized" where
  "report d s = s\<lparr>diagnostics := diagnostics s @ [d]\<rparr>"

definition getReads :: "'ls FindUninitialized \<Rightarrow> expr \<Rightarrow> 'ls option" where
  "getReads s expression = readLocations s expression"

definition getReads_nonNull :: "'ls FindUninitialized \<Rightarrow> expr \<Rightarrow> bug + 'ls" where
  "getReads_nonNull s expression =
     (case readLocations s expression of
        None \<Rightarrow> Inl (BUG_no_locations expression)
      | Some l \<Rightarrow> Inr l)"

definition reads :: "'ls FindUninitialized \<Rightarrow> expr \<Rightarrow> 'ls \<Rightarrow> bug + 'ls FindUninitialized" where
  "reads s expression loc =
     (if unreachable s then Inl BUG_unreachable_expression
      else Inr (s\<lparr>readLocations := (readLocations s)(expression \<mapsto> loc)\<rparr>))"

definition setCurrent :: "'ls FindUninitialized \<Rightarrow> stmt \<Rightarrow> 'ls FindUninitialized" where
  "setCurrent s statement = s\<lparr>currentPoint := pp_ctx (context s) (N_Stmt statement)\<rparr>"

definition getCurrentDefinitions ::
  "('st, 'ls, 'df) collaborators \<Rightarrow> 'ls FindUninitialized \<Rightarrow> 'df" where
  "getCurrentDefinitions E s = getDefinitions E (currentPoint s)"

definition getType_notNull :: "('st, 'ls, 'df) collaborators \<Rightarrow> expr \<Rightarrow> bug + ir_type" where
  "getType_notNull E e = (case getType E e of None \<Rightarrow> Inl (BUG_no_type e) | Some t \<Rightarrow> Inr t)"

text \<open>The body of the loop of \<^verbatim>\<open>checkOutParameters\<close>, for one parameter, and the loop.
  \<open>block\<close> is \<^verbatim>\<open>block->getName()\<close>.\<close>

fun checkOutParameter ::
  "('st, 'ls, 'df) collaborators \<Rightarrow> cstring \<Rightarrow> 'df \<Rightarrow> 'ls FindUninitialized \<Rightarrow> Parameter
     \<Rightarrow> 'ls FindUninitialized" where
  "checkOutParameter E block defs s (Parameter i n d) =
     (if d = Out \<or> d = InOut then
        (case getStorage E i of
           None \<Rightarrow> s
         | Some storage \<Rightarrow>
             (let s1 = s\<lparr>hasUses :=
                          HasUses_add (hasUses s) (getPoints E defs (LocationSet_of E storage))\<rparr>
              in if storageTypeIsEmpty E storage then s1
                 else if containsBeforeStart (getPoints E defs (removeHeaders E storage))
                 then report (Diagnostic WARN_UNINITIALIZED_OUT_PARAM
                        ''out parameter '%1%' may be uninitialized when '%2%' terminates''
                        [A_Param (Parameter i n d), A_Name block]) s1
                 else s1))
      else s)"

definition checkOutParameters ::
  "('st, 'ls, 'df) collaborators \<Rightarrow> cstring \<Rightarrow> Parameter list \<Rightarrow> 'df \<Rightarrow> 'ls FindUninitialized
     \<Rightarrow> 'ls FindUninitialized" where
  "checkOutParameters E block parameters defs s =
     foldl (checkOutParameter E block defs) s parameters"

text \<open>\<open>ctx\<close> is the chain of the visitor's contexts above the node being visited, the parent
  first; the empty chain is the null context of a root.\<close>

fun isFinalRead :: "node list \<Rightarrow> expr \<Rightarrow> bool" where
  "isFinalRead [] expression = True"
| "isFinalRead (N_Expr (Member i e m) # ctx) expression = False"
| "isFinalRead (N_Expr (ArrayIndex i l r) # ctx) expression = (l \<noteq> expression)"
| "isFinalRead (n # ctx) expression = True"

definition registerUses ::
  "('st, 'ls, 'df) collaborators \<Rightarrow> node list \<Rightarrow> expr \<Rightarrow> bool \<Rightarrow> 'ls FindUninitialized
     \<Rightarrow> bug + 'ls FindUninitialized" where
  "registerUses E ctx expression reportUninitialized s =
     (if \<not> isFinalRead ctx expression then Inr s
      else if isUnreachable E (getCurrentDefinitions E s) then Inr s
      else (case getReads s expression of
              None \<Rightarrow> Inr s
            | Some rd \<Rightarrow>
                if isEmpty E rd then Inr s
                else (let points = getPoints E (getCurrentDefinitions E s) rd in
                      bindE (if reportUninitialized \<and> \<not> lhs s \<and> containsBeforeStart points
                             then bindE (getType_notNull E expression) (\<lambda>type.
                                    Inr (report (Diagnostic WARN_UNINITIALIZED_USE
                                           (if type = Type_Base then ''%1% may be uninitialized''
                                            else ''%1% may not be completely initialized'')
                                           [A_Expr expression]) s))
                             else Inr s)
                        (\<lambda>s1. Inr (s1\<lparr>hasUses := HasUses_add (hasUses s1) points\<rparr>)))))"

text \<open>The end of \<^verbatim>\<open>checkHeaderFieldWrite\<close>, after \<open>loc\<close> has been computed for \<open>parent\<close>:
  the test of the type of \<open>parent\<close> and the read of the valid bit.\<close>

definition headerValidRead ::
  "('st, 'ls, 'df) collaborators \<Rightarrow> node list \<Rightarrow> expr \<Rightarrow> expr \<Rightarrow> 'ls \<times> 'ls FindUninitialized
     \<Rightarrow> bug + ('ls \<times> 'ls FindUninitialized)" where
  "headerValidRead E ctx expr parent ls =
     (case ls of (loc, s) \<Rightarrow>
       bindE (getType_notNull E parent) (\<lambda>type.
         if type = Type_Header then
           (if expr \<noteq> parent then
              bindE (reads s expr (getValidField E loc)) (\<lambda>s1.
              bindE (registerUses E ctx expr True s1) (\<lambda>s2.
                Inr (getValidField E loc, s2)))
            else Inr (loc, s))
         else Inr (loc, s)))"

fun checkHeaderFieldWrite ::
  "('st, 'ls, 'df) collaborators \<Rightarrow> node list \<Rightarrow> expr \<Rightarrow> expr \<Rightarrow> 'ls FindUninitialized
     \<Rightarrow> bug + ('ls \<times> 'ls FindUninitialized)" where
  "checkHeaderFieldWrite E ctx expr (Member i e m) s =
     bindE (checkHeaderFieldWrite E ctx expr e s) (\<lambda>(loc, s1).
       headerValidRead E ctx expr (Member i e m) (getField E loc m, s1))"
| "checkHeaderFieldWrite E ctx expr (ArrayIndex i l r) s =
     bindE (checkHeaderFieldWrite E ctx expr l s) (\<lambda>(loc, s1).
       headerValidRead E ctx expr (ArrayIndex i l r)
         ((case r of Constant j index \<Rightarrow> getIndex E loc index | _ \<Rightarrow> loc), s1))"
| "checkHeaderFieldWrite E ctx expr (PathExpression i p) s =
     (case getDeclaration E (PathExpression i p) of
        None \<Rightarrow> Inl (BUG_no_declaration p)
      | Some decl \<Rightarrow>
          headerValidRead E ctx expr (PathExpression i p)
            ((case getStorage E decl of
                Some storage \<Rightarrow> LocationSet_of E storage
              | None \<Rightarrow> LocationSet_empty E), s))"
| "checkHeaderFieldWrite E ctx expr (Slice (MkSlice i e0 h l)) s =
     bindE (checkHeaderFieldWrite E ctx expr e0 s)
       (headerValidRead E ctx expr (Slice (MkSlice i e0 h l)))"
| "checkHeaderFieldWrite E ctx expr parent s = Inl (BUG_unexpected_lhs parent)"

section \<open>FindUninitialized: the traversal\<close>

text \<open>
  \<open>visit_expr E ctx e s\<close> is \<^verbatim>\<open>visit(e)\<close> from a node whose context chain, itself included,
  is \<open>ctx\<close>, in the visitor state \<open>s\<close>; likewise for statements and declarations. A node
  class with no \<^verbatim>\<open>preorder\<close> of its own gets the default of \<^verbatim>\<open>Inspector\<close>: its children are
  visited in order, then its \<^verbatim>\<open>postorder\<close>.

  \<open>builtin_call\<close> is the part of \<^verbatim>\<open>preorder(MethodCallExpression)\<close> for built-in methods; it
  returns \<open>True\<close> when the function has returned there.
\<close>

definition builtin_call ::
  "('st, 'ls, 'df) collaborators \<Rightarrow> node list \<Rightarrow> expr \<Rightarrow> mi_kind \<Rightarrow> 'ls FindUninitialized
     \<Rightarrow> bug + (bool \<times> 'ls FindUninitialized)" where
  "builtin_call E ctx expression kind s =
     (case kind of
        BuiltInMethod name appliedTo \<Rightarrow>
          bindE (getReads_nonNull s appliedTo) (\<lambda>base.
            if name = Type_Stack_push_front \<or> name = Type_Stack_pop_front then
              bindE (reads s expression base) (\<lambda>s1.
              bindE (registerUses E ctx expression False s1) (\<lambda>s2. Inr (True, s2)))
            else if name = Type_Header_isValid then
              bindE (reads s expression (getField E base (validFieldName E))) (\<lambda>s1.
              bindE (registerUses E ctx expression True s1) (\<lambda>s2. Inr (True, s2)))
            else Inr (False, s))
      | _ \<Rightarrow> Inr (False, s))"

text \<open>\<^verbatim>\<open>otherExpression\<close>, the \<^verbatim>\<open>postorder\<close> of \<^verbatim>\<open>Mux\<close> and of the unary and binary operations.\<close>

definition otherExpression ::
  "('st, 'ls, 'df) collaborators \<Rightarrow> node list \<Rightarrow> expr \<Rightarrow> 'ls FindUninitialized
     \<Rightarrow> bug + 'ls FindUninitialized" where
  "otherExpression E ctx expression s =
     (if lhs s then Inl (BUG_operation_on_lhs expression)
      else bindE (reads s expression (LocationSet_empty E)) (\<lambda>s1.
             registerUses E ctx expression True s1))"

text \<open>The child visitor \<^verbatim>\<open>FindUninitialized fu(this, pt)\<close>: it shares \<^verbatim>\<open>hasUses\<close> (and the
  diagnostics sink) with its parent; \<open>fu_join\<close> gives them back to the parent when the
  callees have been analysed. \<^verbatim>\<open>init_apply\<close> clears \<^verbatim>\<open>unreachable\<close> at each \<^verbatim>\<open>apply\<close>.\<close>

definition fu_child :: "'ls FindUninitialized \<Rightarrow> ProgramPoint \<Rightarrow> 'ls FindUninitialized" where
  "fu_child parent pt =
     \<lparr>context = pt, lhs = False, currentPoint = pt, readLocations = Map.empty,
      hasUses = hasUses parent, unreachable = False, virtualMethod = False,
      diagnostics = diagnostics parent\<rparr>"

definition fu_join :: "'ls FindUninitialized \<Rightarrow> 'ls FindUninitialized \<Rightarrow> 'ls FindUninitialized" where
  "fu_join parent fu = parent\<lparr>hasUses := hasUses fu, diagnostics := diagnostics fu\<rparr>"

definition init_apply :: "'ls FindUninitialized \<Rightarrow> 'ls FindUninitialized" where
  "init_apply s = s\<lparr>unreachable := False\<rparr>"

text \<open>\<^verbatim>\<open>parser->getDeclByName(name)\<close>: the locals, then the states.\<close>

definition getDeclByName :: "decl list \<Rightarrow> decl list \<Rightarrow> cstring \<Rightarrow> decl option" where
  "getDeclByName locals states name = find (\<lambda>d. getName d = name) (locals @ states)"

text \<open>\<^verbatim>\<open>findContext<IR::AssignmentStatement>()\<close>: the nearest assignment above the node.\<close>

fun findContext_AssignmentStatement :: "node list \<Rightarrow> stmt option" where
  "findContext_AssignmentStatement [] = None"
| "findContext_AssignmentStatement (N_Stmt (AssignmentStatement i src l r) # ctx) =
     Some (AssignmentStatement i src l r)"
| "findContext_AssignmentStatement (n # ctx) = findContext_AssignmentStatement ctx"

text \<open>\<^verbatim>\<open>e->to<IR::Constant>()\<close> with \<^verbatim>\<open>asInt()\<close>, and \<^verbatim>\<open>e->is<IR::MethodCallExpression>()\<close>.\<close>

fun to_Constant :: "expr \<Rightarrow> int option" where
  "to_Constant (Constant i c) = Some c"
| "to_Constant e = None"

fun is_MethodCallExpression :: "expr \<Rightarrow> bool" where
  "is_MethodCallExpression (MethodCallExpression i m mi) = True"
| "is_MethodCallExpression e = False"

fun is_TypeNameExpression :: "expr \<Rightarrow> bool" where
  "is_TypeNameExpression (TypeNameExpression i n) = True"
| "is_TypeNameExpression e = False"

text \<open>\<^verbatim>\<open>preorder(const IR::Member*)\<close> after the visit of the base \<open>b\<close> of the member
  \<open>expression\<close> = \<open>b.m\<close>.\<close>

definition Member_after_base ::
  "('st, 'ls, 'df) collaborators \<Rightarrow> node list \<Rightarrow> expr \<Rightarrow> expr \<Rightarrow> cstring \<Rightarrow> 'ls FindUninitialized
     \<Rightarrow> bug + 'ls FindUninitialized" where
  "Member_after_base E ctx expression b m s =
     (if is_TypeNameExpression b then reads s expression (LocationSet_empty E)
      else if isHit E expression \<or> isActionRun E expression then Inr s
      else
        bindE (getType_notNull E expression) (\<lambda>type.
          if type = Type_Method then Inr s
          else
            bindE (getReads_nonNull s b) (\<lambda>storage.
            bindE (getType_notNull E b) (\<lambda>basetype.
              if basetype = Type_Stack \<and> (m = Type_Stack_next \<or> m = Type_Stack_last) then
                bindE (reads s expression storage) (\<lambda>s1.
                bindE (registerUses E ctx expression False s1) (\<lambda>s2.
                  if \<not> lhs s2 \<and> m = Type_Stack_next then
                    Inr (report (Diagnostic WARN_UNINITIALIZED
                           ''%1%: reading uninitialized value'' [A_Expr expression]) s2)
                  else Inr s2))
              else if basetype = Type_Stack \<and> m = Type_Stack_lastIndex then
                bindE (reads s expression (getArrayLastIndex E storage)) (\<lambda>s1.
                  registerUses E ctx expression False s1)
              else
                bindE (reads s expression (getField E storage m)) (\<lambda>s1.
                  registerUses E ctx expression True s1)))))"

text \<open>The start of \<^verbatim>\<open>preorder(const IR::Function*)\<close>: during the visit of the virtual
  methods the context is before-start and the function is reachable; \<open>Function_point\<close> is
  \<^verbatim>\<open>point\<close>, and \<open>Function_entry\<close> the state in which the body is visited.\<close>

definition Function_point :: "'ls FindUninitialized \<Rightarrow> decl \<Rightarrow> ProgramPoint" where
  "Function_point s func = pp_ctx (if virtualMethod s then beforeStart else context s) (N_Decl func)"

definition Function_entry :: "'ls FindUninitialized \<Rightarrow> decl \<Rightarrow> 'ls FindUninitialized" where
  "Function_entry s func =
     (if virtualMethod s then s\<lparr>context := beforeStart, unreachable := False\<rparr> else s)
       \<lparr>currentPoint := Function_point s func\<rparr>"

text \<open>The part of \<^verbatim>\<open>preorder(const IR::Function*)\<close> between the visit of the body and the
  check of the out parameters: the error for a function that may not return a value.\<close>

definition checkReturn ::
  "('st, 'ls, 'df) collaborators \<Rightarrow> decl \<Rightarrow> ir_type \<Rightarrow> 'ls FindUninitialized
     \<Rightarrow> 'ls FindUninitialized" where
  "checkReturn E func returnType s =
     (if returnType \<noteq> Type_Void then
        (if \<not> isUnreachable E (getCurrentDefinitions E s) then
           report (Diagnostic ERR_INSUFFICIENT
                     ''Function '%1%' does not return a value on all paths'' [A_Decl func]) s
         else s)
      else s)"

text \<open>
  The traversal is a primitive recursion over the IR. Where a node holds a list or an
  optional child, the visits of the children are first collected (\<open>map\<close>, \<open>map_option\<close>,
  \<open>map_prod\<close>) and then run by the loop of the source: \<open>seqE\<close> runs them in order and stops
  at the first abort.
\<close>

primrec seqE :: "('s \<Rightarrow> bug + 's) list \<Rightarrow> 's \<Rightarrow> bug + 's" where
  "seqE [] s = Inr s"
| "seqE (f # fs) s = bindE (f s) (seqE fs)"

definition visit_opt :: "('s \<Rightarrow> bug + 's) option \<Rightarrow> 's \<Rightarrow> bug + 's" where
  "visit_opt child s = (case child of None \<Rightarrow> Inr s | Some f \<Rightarrow> f s)"

fun kind_of :: "method_instance \<Rightarrow> mi_kind" where
  "kind_of (MethodInstance kind sub) = kind"

text \<open>The two loops of \<^verbatim>\<open>preorder(MethodCallExpression)\<close> over the parameters: \<open>d\<close> is the
  direction of the parameter and \<open>visit_arg\<close> the visit of its argument.\<close>

fun in_arg ::
  "Direction \<times> ('ls FindUninitialized \<Rightarrow> bug + 'ls FindUninitialized)
     \<Rightarrow> 'ls FindUninitialized \<Rightarrow> bug + 'ls FindUninitialized" where
  "in_arg (d, visit_arg) s = (if d \<noteq> Out then visit_arg s else Inr s)"

fun out_arg ::
  "Direction \<times> ('ls FindUninitialized \<Rightarrow> bug + 'ls FindUninitialized)
     \<Rightarrow> 'ls FindUninitialized \<Rightarrow> bug + 'ls FindUninitialized" where
  "out_arg (d, visit_arg) s =
     (if d = Out \<or> d = InOut then
        bindE (visit_arg (s\<lparr>lhs := True\<rparr>)) (\<lambda>s1. Inr (s1\<lparr>lhs := lhs s\<rparr>))
      else Inr s)"

text \<open>\<^verbatim>\<open>for (auto c : callee) (void)c->getNode()->apply(fu)\<close>, \<open>apply_c\<close> being the visit of
  \<open>c\<close> as a root.\<close>

definition apply_callees ::
  "('ls FindUninitialized \<Rightarrow> bug + 'ls FindUninitialized) list
     \<Rightarrow> 'ls FindUninitialized \<Rightarrow> bug + 'ls FindUninitialized" where
  "apply_callees callee fu = seqE (map (\<lambda>apply_c fu1. apply_c (init_apply fu1)) callee) fu"

text \<open>The loop of \<^verbatim>\<open>preorder(SwitchStatement)\<close> over the cases, each with its visit.\<close>

fun has_statement :: "switch_case \<Rightarrow> bool" where
  "has_statement (SwitchCase i label statement) = (statement \<noteq> None)"

fun switch_cases ::
  "ProgramPoint \<Rightarrow> bool
     \<Rightarrow> (switch_case \<times> ('ls FindUninitialized \<Rightarrow> bug + 'ls FindUninitialized)) list
     \<Rightarrow> bool \<Rightarrow> 'ls FindUninitialized \<Rightarrow> bug + (bool \<times> 'ls FindUninitialized)" where
  "switch_cases saveCurrent saveUnreachable [] finalUnreachable s = Inr (finalUnreachable, s)"
| "switch_cases saveCurrent saveUnreachable ((c, visit_c) # cases) finalUnreachable s =
     (if has_statement c then
        bindE (visit_c (s\<lparr>currentPoint := saveCurrent, unreachable := saveUnreachable\<rparr>)) (\<lambda>s1.
          switch_cases saveCurrent saveUnreachable cases
            (finalUnreachable \<and> unreachable s1) s1)
      else switch_cases saveCurrent saveUnreachable cases finalUnreachable s)"

text \<open>The loop of \<^verbatim>\<open>preorder(P4Table)\<close> over the action list.\<close>

fun table_actions ::
  "ProgramPoint \<Rightarrow> (expr \<times> ('ls FindUninitialized \<Rightarrow> bug + 'ls FindUninitialized)) list
     \<Rightarrow> 'ls FindUninitialized \<Rightarrow> bug + 'ls FindUninitialized" where
  "table_actions savePoint [] s = Inr s"
| "table_actions savePoint ((ale, visit_ale) # actionList) s =
     (if is_MethodCallExpression ale then
        bindE (visit_ale s) (\<lambda>s1.
          table_actions savePoint actionList (s1\<lparr>currentPoint := savePoint\<rparr>))
      else Inl (BUG_action_list_entry ale))"

text \<open>\<^verbatim>\<open>visitVirtualMethods\<close>: each local comes with the visit of its initializer.\<close>

fun has_initializer :: "decl \<Rightarrow> bool" where
  "has_initializer (Declaration_Instance i name (Some initializer)) = True"
| "has_initializer d = False"

fun virtual_local ::
  "decl \<times> ('ls FindUninitialized \<Rightarrow> bug + 'ls FindUninitialized)
     \<Rightarrow> 'ls FindUninitialized \<Rightarrow> bug + 'ls FindUninitialized" where
  "virtual_local (l, visit_initializer) s =
     (if has_initializer l then
        bindE (visit_initializer (s\<lparr>virtualMethod := True\<rparr>)) (\<lambda>s1.
          Inr (s1\<lparr>virtualMethod := False\<rparr>))
      else Inr s)"

definition visitVirtualMethods ::
  "(decl \<times> ('ls FindUninitialized \<Rightarrow> bug + 'ls FindUninitialized)) list
     \<Rightarrow> 'ls FindUninitialized \<Rightarrow> bug + 'ls FindUninitialized" where
  "visitVirtualMethods locals s =
     bindE (seqE (map virtual_local locals) s) (\<lambda>s1. Inr (s1\<lparr>context := context s\<rparr>))"

text \<open>
  \<open>visit_expr E ctx e s\<close> is \<^verbatim>\<open>visit(e)\<close> in the visitor state \<open>s\<close>, \<open>ctx\<close> being the chain of
  contexts above \<open>e\<close>; likewise for the other classes. A class with no \<^verbatim>\<open>preorder\<close> of its
  own gets the default of \<^verbatim>\<open>Inspector\<close>: its children in order, then its \<^verbatim>\<open>postorder\<close>.

  \<open>analyze_callees\<close> is the symbolic call of the callees of a method instance by the child
  visitor \<open>fu\<close>. In \<open>visit_decl E virt ctx d\<close>, \<open>virt\<close> only matters for an instance: it says
  that the initializer is visited from the enclosing parser or control
  (\<^verbatim>\<open>visitVirtualMethods\<close>), whose context is then the parent of the initializer. The
  constructor arguments of an instance are not modelled. \<^verbatim>\<open>preorder(P4Action)\<close> checks that
  no \<^verbatim>\<open>P4Program\<close> is above the action; this IR has no such node.
\<close>

primrec visit_expr ::
  "('st, 'ls, 'df) collaborators \<Rightarrow> node list \<Rightarrow> expr \<Rightarrow> 'ls FindUninitialized
     \<Rightarrow> bug + 'ls FindUninitialized"
and visit_slice ::
  "('st, 'ls, 'df) collaborators \<Rightarrow> node list \<Rightarrow> slice \<Rightarrow> 'ls FindUninitialized
     \<Rightarrow> bug + 'ls FindUninitialized"
and visit_call ::
  "('st, 'ls, 'df) collaborators \<Rightarrow> node list \<Rightarrow> expr \<Rightarrow> method_instance \<Rightarrow> 'ls FindUninitialized
     \<Rightarrow> bug + 'ls FindUninitialized"
and analyze_callees ::
  "('st, 'ls, 'df) collaborators \<Rightarrow> mi_kind \<Rightarrow> 'ls FindUninitialized
     \<Rightarrow> bug + 'ls FindUninitialized"
and visit_stmt ::
  "('st, 'ls, 'df) collaborators \<Rightarrow> node list \<Rightarrow> stmt \<Rightarrow> 'ls FindUninitialized
     \<Rightarrow> bug + 'ls FindUninitialized"
and visit_switch_case ::
  "('st, 'ls, 'df) collaborators \<Rightarrow> node list \<Rightarrow> switch_case \<Rightarrow> 'ls FindUninitialized
     \<Rightarrow> bug + 'ls FindUninitialized"
and visit_component ::
  "('st, 'ls, 'df) collaborators \<Rightarrow> node list \<Rightarrow> stat_or_decl \<Rightarrow> 'ls FindUninitialized
     \<Rightarrow> bug + 'ls FindUninitialized"
and visit_key_element ::
  "('st, 'ls, 'df) collaborators \<Rightarrow> node list \<Rightarrow> key_element \<Rightarrow> 'ls FindUninitialized
     \<Rightarrow> bug + 'ls FindUninitialized"
and visit_decl ::
  "('st, 'ls, 'df) collaborators \<Rightarrow> bool \<Rightarrow> node list \<Rightarrow> decl \<Rightarrow> 'ls FindUninitialized
     \<Rightarrow> bug + 'ls FindUninitialized"
where
  "visit_expr E ctx (Constant i c) s = reads s (Constant i c) (LocationSet_empty E)"
| "visit_expr E ctx (BoolLiteral i b) s = reads s (BoolLiteral i b) (LocationSet_empty E)"
| "visit_expr E ctx (TypeNameExpression i n) s =
     reads s (TypeNameExpression i n) (LocationSet_empty E)"
| "visit_expr E ctx (DefaultExpression i) s = Inr s"
| "visit_expr E ctx (PathExpression i p) s =
     (if lhs s then reads s (PathExpression i p) (LocationSet_empty E)
      else (case getDeclaration E (PathExpression i p) of
              None \<Rightarrow> Inl (BUG_no_declaration p)
            | Some decl \<Rightarrow>
                bindE (reads s (PathExpression i p)
                         (case getStorage E decl of
                            Some storage \<Rightarrow> LocationSet_of E storage
                          | None \<Rightarrow> LocationSet_empty E))
                  (registerUses E ctx (PathExpression i p) True)))"
| "visit_expr E ctx (Member i b m) s =
     bindE (visit_expr E (N_Expr (Member i b m) # ctx) b s)
       (Member_after_base E ctx (Member i b m) b m)"
| "visit_expr E ctx (ArrayIndex i l r) s =
     bindE
       (case to_Constant r of
          Some index \<Rightarrow>
            (if lhs s then reads s (ArrayIndex i l r) (LocationSet_empty E)
             else
               bindE (visit_expr E (N_Expr (ArrayIndex i l r) # ctx) l s) (\<lambda>s1.
               bindE (getReads_nonNull s1 l) (\<lambda>storage.
                 reads s1 (ArrayIndex i l r) (getIndex E storage index))))
        | None \<Rightarrow>
            bindE (visit_expr E (N_Expr (ArrayIndex i l r) # ctx) r (s\<lparr>lhs := False\<rparr>)) (\<lambda>s1.
            bindE (visit_expr E (N_Expr (ArrayIndex i l r) # ctx) l s1) (\<lambda>s2.
            bindE (getReads_nonNull s2 l) (\<lambda>storage.
              reads (s2\<lparr>lhs := lhs s\<rparr>) (ArrayIndex i l r) storage))))
       (registerUses E ctx (ArrayIndex i l r) True)"
| "visit_expr E ctx (Slice sl) s = visit_slice E ctx sl s"
| "visit_expr E ctx (Operation_Unary i a) s =
     bindE (visit_expr E (N_Expr (Operation_Unary i a) # ctx) a s)
       (otherExpression E ctx (Operation_Unary i a))"
| "visit_expr E ctx (Operation_Binary i a b) s =
     bindE (visit_expr E (N_Expr (Operation_Binary i a b) # ctx) a s) (\<lambda>s1.
     bindE (visit_expr E (N_Expr (Operation_Binary i a b) # ctx) b s1)
       (otherExpression E ctx (Operation_Binary i a b)))"
| "visit_expr E ctx (Mux i a b c) s =
     bindE (visit_expr E (N_Expr (Mux i a b c) # ctx) a s) (\<lambda>s1.
     bindE (visit_expr E (N_Expr (Mux i a b c) # ctx) b s1) (\<lambda>s2.
     bindE (visit_expr E (N_Expr (Mux i a b c) # ctx) c s2)
       (otherExpression E ctx (Mux i a b c))))"
| "visit_expr E ctx (MethodCallExpression i method mi) s =
     bindE (visit_expr E (N_Expr (MethodCallExpression i method mi) # ctx) method s) (\<lambda>s1.
     bindE (builtin_call E ctx (MethodCallExpression i method mi) (kind_of mi) s1)
       (\<lambda>(returned, s2).
          if returned then Inr s2
          else
            bindE (visit_call E (N_Expr (MethodCallExpression i method mi) # ctx)
                     (MethodCallExpression i method mi) mi s2) (\<lambda>s3.
              reads s3 (MethodCallExpression i method mi) (LocationSet_empty E))))"

| "visit_slice E ctx (MkSlice i e0 h l) s =
     bindE
       (if findContext_AssignmentStatement ctx \<noteq> None \<and> lhs s then
          bindE (watchForOverwrites (hasUses s) (MkSlice i e0 h l)) (\<lambda>H.
            Inr (s\<lparr>hasUses := H\<rparr>))
        else Inr s) (\<lambda>s1.
     bindE (visit_expr E (N_Expr (Slice (MkSlice i e0 h l)) # ctx) e0 (s1\<lparr>lhs := False\<rparr>)) (\<lambda>s2.
     bindE (getReads_nonNull s2 e0) (\<lambda>storage.
     bindE (reads s2 (Slice (MkSlice i e0 h l)) storage) (\<lambda>s3.
     bindE (registerUses E ctx (Slice (MkSlice i e0 h l)) True s3) (\<lambda>s4.
       Inr (s4\<lparr>lhs := lhs s1, hasUses := doneWatching (hasUses s4)\<rparr>))))))"

| "visit_call E ctx call (MethodInstance kind sub) s =
     bindE (seqE (map in_arg (map (map_prod id (visit_expr E ctx)) sub)) s) (\<lambda>s1.
     bindE (analyze_callees E kind (fu_child s1 (pp_ctx (context s1) (N_Expr call)))) (\<lambda>fu.
       seqE (map out_arg (map (map_prod id (visit_expr E ctx)) sub)) (fu_join s1 fu)))"

| "analyze_callees E (BuiltInMethod name appliedTo) fu = Inr fu"
| "analyze_callees E (ActionCall action) fu = apply_callees [visit_decl E False [] action] fu"
| "analyze_callees E (ApplyMethod object) fu =
     apply_callees
       (case map_option (visit_decl E False []) object of
          Some apply_table \<Rightarrow> [apply_table]
        | None \<Rightarrow> []) fu"
| "analyze_callees E (ExternMethod mayCall) fu =
     apply_callees (map (visit_decl E False []) mayCall) fu"
| "analyze_callees E OtherMethod fu = Inr fu"

| "visit_stmt E ctx (AssignmentStatement i src l r) s =
     (if \<not> unreachable s then
        bindE (visit_expr E (N_Stmt (AssignmentStatement i src l r) # ctx) l (s\<lparr>lhs := True\<rparr>))
          (\<lambda>s1.
        bindE (checkHeaderFieldWrite E ctx l l s1) (\<lambda>(loc, s2).
        bindE (visit_expr E (N_Stmt (AssignmentStatement i src l r) # ctx) r (s2\<lparr>lhs := False\<rparr>))
          (\<lambda>s3. Inr (setCurrent s3 (AssignmentStatement i src l r)))))
      else Inr (setCurrent s (AssignmentStatement i src l r)))"
| "visit_stmt E ctx (ReturnStatement i expression) s =
     bindE
       (if \<not> unreachable s then
          visit_opt (map_option (visit_expr E (N_Stmt (ReturnStatement i expression) # ctx))
                       expression) s
        else Inr s)
       (\<lambda>s1. Inr (setCurrent (s1\<lparr>unreachable := True\<rparr>) (ReturnStatement i expression)))"
| "visit_stmt E ctx (ExitStatement i) s =
     Inr (setCurrent (s\<lparr>unreachable := True\<rparr>) (ExitStatement i))"
| "visit_stmt E ctx (MethodCallStatement i src methodCall) s =
     bindE
       (if \<not> unreachable s then
          visit_expr E (N_Stmt (MethodCallStatement i src methodCall) # ctx) methodCall s
        else Inr s)
       (\<lambda>s1. Inr (setCurrent s1 (MethodCallStatement i src methodCall)))"
| "visit_stmt E ctx (BlockStatement i components) s =
     bindE
       (if \<not> unreachable s then
          seqE (map (visit_component E (N_Stmt (BlockStatement i components) # ctx)) components) s
        else Inr s)
       (\<lambda>s1. Inr (setCurrent s1 (BlockStatement i components)))"
| "visit_stmt E ctx (IfStatement i condition ifTrue ifFalse) s =
     (if \<not> unreachable s then
        bindE (visit_expr E (N_Stmt (IfStatement i condition ifTrue ifFalse) # ctx) condition s)
          (\<lambda>s1.
        bindE (visit_stmt E (N_Stmt (IfStatement i condition ifTrue ifFalse) # ctx) ifTrue
                 (s1\<lparr>currentPoint := pp_ctx (context s1) (N_Expr condition)\<rparr>))
          (\<lambda>s2.
        bindE
          (case map_option (visit_stmt E (N_Stmt (IfStatement i condition ifTrue ifFalse) # ctx))
                  ifFalse of
             Some visit_ifFalse \<Rightarrow>
               visit_ifFalse
                 (s2\<lparr>unreachable := unreachable s1,
                     currentPoint := pp_ctx (context s1) (N_Expr condition)\<rparr>)
           | None \<Rightarrow> Inr (s2\<lparr>unreachable := unreachable s1\<rparr>))
          (\<lambda>s3. Inr (setCurrent (s3\<lparr>unreachable := (unreachable s2 \<and> unreachable s3)\<rparr>)
                        (IfStatement i condition ifTrue ifFalse)))))
      else Inr (setCurrent s (IfStatement i condition ifTrue ifFalse)))"
| "visit_stmt E ctx (SwitchStatement i expression cases) s =
     (if \<not> unreachable s then
        bindE (visit_expr E (N_Stmt (SwitchStatement i expression cases) # ctx) expression s)
          (\<lambda>s1.
        bindE (switch_cases (pp_ctx (context s1) (N_Expr expression)) (unreachable s1)
                 (zip cases
                    (map (visit_switch_case E (N_Stmt (SwitchStatement i expression cases) # ctx))
                       cases))
                 True (s1\<lparr>currentPoint := pp_ctx (context s1) (N_Expr expression)\<rparr>))
          (\<lambda>(finalUnreachable, s2).
             Inr (setCurrent (s2\<lparr>unreachable := finalUnreachable\<rparr>)
                    (SwitchStatement i expression cases))))
      else Inr (setCurrent s (SwitchStatement i expression cases)))"
| "visit_stmt E ctx (EmptyStatement i) s = Inr s"

| "visit_switch_case E ctx (SwitchCase i label statement) s =
     bindE (visit_expr E (N_SwitchCase (SwitchCase i label statement) # ctx) label s)
       (visit_opt (map_option (visit_stmt E (N_SwitchCase (SwitchCase i label statement) # ctx))
                     statement))"

| "visit_component E ctx (Stat st) s = visit_stmt E ctx st s"
| "visit_component E ctx (Decl d) s = visit_decl E False ctx d s"

| "visit_key_element E ctx (KeyElement i expression matchType) s =
     bindE (visit_expr E (N_KeyElement (KeyElement i expression matchType) # ctx) expression s)
       (visit_expr E (N_KeyElement (KeyElement i expression matchType) # ctx) matchType)"

| "visit_decl E virt ctx (ParserState i name components selectExpression) s =
     bindE (seqE (map (visit_component E
                         (N_Decl (ParserState i name components selectExpression) # ctx))
                    components)
              (s\<lparr>context := pp_node (N_Decl (ParserState i name components selectExpression)),
                 currentPoint :=
                   pp_node (N_Decl (ParserState i name components selectExpression))\<rparr>))
       (\<lambda>s1.
     bindE (visit_opt
              (map_option
                 (visit_expr E (N_Decl (ParserState i name components selectExpression) # ctx))
                 selectExpression) s1)
       (\<lambda>s2. Inr (s2\<lparr>context := beforeStart\<rparr>)))"
| "visit_decl E virt ctx (P4Control i name parameters controlLocals body) s =
     (if \<not> isBeforeStart (context s) then Inl BUG_nonempty_context
      else
        bindE (visitVirtualMethods
                 (zip controlLocals
                    (map (visit_decl E True
                            (N_Decl (P4Control i name parameters controlLocals body) # ctx))
                       controlLocals))
                 (s\<lparr>currentPoint :=
                      pp_node (N_Decl (P4Control i name parameters controlLocals body))\<rparr>))
          (\<lambda>s1.
        bindE (visit_stmt E (N_Decl (P4Control i name parameters controlLocals body) # ctx) body
                 (s1\<lparr>unreachable := False\<rparr>))
          (\<lambda>s2. Inr (checkOutParameters E name parameters (getCurrentDefinitions E s2) s2))))"
| "visit_decl E virt ctx (Function i name returnType parameters body) s =
     bindE (visit_stmt E (N_Decl (Function i name returnType parameters body) # ctx) body
              (Function_entry s (Function i name returnType parameters body)))
       (\<lambda>s1.
          Inr (checkOutParameters E name parameters
                 (getDefinitions E
                    (pp_after (Function_point s (Function i name returnType parameters body))))
                 ((checkReturn E (Function i name returnType parameters body) returnType s1)
                  \<lparr>currentPoint :=
                     pp_after (Function_point s (Function i name returnType parameters body))\<rparr>)))"
| "visit_decl E virt ctx (P4Parser i name parameters parserLocals states) s =
     bindE (visitVirtualMethods
              (zip parserLocals
                 (map (visit_decl E True
                         (N_Decl (P4Parser i name parameters parserLocals states) # ctx))
                    parserLocals))
              (s\<lparr>currentPoint :=
                   pp_node (N_Decl (P4Parser i name parameters parserLocals states))\<rparr>))
       (\<lambda>s1.
     bindE (seqE (map (visit_decl E False
                         (N_Decl (P4Parser i name parameters parserLocals states) # ctx))
                    states) s1)
       (\<lambda>s2.
          (case getDeclByName parserLocals states ParserState_accept of
             None \<Rightarrow> Inl (BUG_null_state ParserState_accept)
           | Some accept \<Rightarrow>
               (case getDeclByName parserLocals states ParserState_reject of
                  None \<Rightarrow> Inl (BUG_null_state ParserState_reject)
                | Some reject \<Rightarrow>
                    Inr (checkOutParameters E name parameters
                           (joinDefinitions E (getDefinitions E (pp_node (N_Decl accept)))
                              (getDefinitions E (pp_node (N_Decl reject))))
                           (s2\<lparr>unreachable := False\<rparr>))))))"
| "visit_decl E virt ctx (P4Action i name parameters body) s =
     bindE (visit_stmt E (N_Decl (P4Action i name parameters body) # ctx) body
              (s\<lparr>unreachable := False,
                 currentPoint := pp_ctx (context s) (N_Decl (P4Action i name parameters body))\<rparr>))
       (\<lambda>s1. Inr (checkOutParameters E name parameters (getCurrentDefinitions E s1) s1))"
| "visit_decl E virt ctx (P4Table i name key actionList) s =
     bindE (visit_opt
              (map_option seqE
                 (map_option
                    (map (visit_key_element E (N_Decl (P4Table i name key actionList) # ctx)))
                    key))
              (s\<lparr>currentPoint := pp_ctx (context s) (N_Decl (P4Table i name key actionList))\<rparr>))
       (table_actions (pp_ctx (context s) (N_Decl (P4Table i name key actionList)))
          (zip actionList
             (map (visit_expr E (N_Decl (P4Table i name key actionList) # ctx)) actionList)))"
| "visit_decl E virt ctx (Method i name) s = Inr s"
| "visit_decl E virt ctx (Declaration_Instance i name initializer) s =
     visit_opt
       (map_option
          (visit_stmt E (if virt then ctx else N_Decl (Declaration_Instance i name initializer) # ctx))
          initializer) s"
| "visit_decl E virt ctx (Declaration_Variable i name initializer) s =
     visit_opt
       (map_option (visit_expr E (N_Decl (Declaration_Variable i name initializer) # ctx))
          initializer) s"

section \<open>Notions named by the claims\<close>

text \<open>The warning of \<^verbatim>\<open>checkOutParameters\<close> for parameter \<open>p\<close> of \<open>block\<close>, and the warnings
  the amended claim expects for a parameter.\<close>

definition out_param_warning :: "cstring \<Rightarrow> Parameter \<Rightarrow> diagnostic" where
  "out_param_warning block p =
     Diagnostic WARN_UNINITIALIZED_OUT_PARAM
       ''out parameter '%1%' may be uninitialized when '%2%' terminates'' [A_Param p, A_Name block]"

fun expected_out_param_warnings ::
  "('st, 'ls, 'df) collaborators \<Rightarrow> cstring \<Rightarrow> 'df \<Rightarrow> Parameter \<Rightarrow> diagnostic list" where
  "expected_out_param_warnings E block defs (Parameter i n d) =
     (case getStorage E i of
        None \<Rightarrow> []
      | Some storage \<Rightarrow>
          if (d = Out \<or> d = InOut) \<and> \<not> storageTypeIsEmpty E storage \<and>
             containsBeforeStart (getPoints E defs (removeHeaders E storage))
          then [out_param_warning block (Parameter i n d)] else [])"

definition stack_next_warning :: "expr \<Rightarrow> diagnostic" where
  "stack_next_warning e =
     Diagnostic WARN_UNINITIALIZED ''%1%: reading uninitialized value'' [A_Expr e]"

definition insufficient_return :: "decl \<Rightarrow> diagnostic" where
  "insufficient_return func =
     Diagnostic ERR_INSUFFICIENT ''Function '%1%' does not return a value on all paths''
       [A_Decl func]"

text \<open>The expressions \<^verbatim>\<open>checkHeaderFieldWrite(expr, parent)\<close> walks through: \<open>parent\<close>, then
  the expression it recurses on, down to the path.\<close>

fun walked :: "expr \<Rightarrow> expr list" where
  "walked (Member i e m) = Member i e m # walked e"
| "walked (ArrayIndex i l r) = ArrayIndex i l r # walked l"
| "walked (Slice (MkSlice i e0 h l)) = Slice (MkSlice i e0 h l) # walked e0"
| "walked e = [e]"

text \<open>What \<^verbatim>\<open>HasUses::add\<close> is to insert for the points \<open>points\<close> under the tracker \<open>t\<close>: the
  last node of every point that the tracker does not skip.\<close>

definition inserted_nodes :: "SliceTracker \<Rightarrow> ProgramPoints \<Rightarrow> node set" where
  "inserted_nodes t points = {n. \<exists>p \<in> set points. \<not> overwrites t p \<and> pp_last p = Some n}"


text \<open>Modelled from the spec: \<^verbatim>\<open>Definitions::joinDefinitions\<close> is defined in def_use.cpp, which
  is not among the sources. The spec makes \<^verbatim>\<open>Definitions\<close> the lattice of the reaching writes
  and \<^verbatim>\<open>joinDefinitions\<close> its join: the points of the join for a location set are the points of
  either side.\<close>

definition join_keeps_points :: "('st, 'ls, 'df) collaborators \<Rightarrow> bool" where
  "join_keeps_points E =
     (\<forall>a b ls. set (getPoints E (joinDefinitions E a b) ls) =
                set (getPoints E a ls) \<union> set (getPoints E b ls))"

section \<open>Example programs and collaborators\<close>

text \<open>Small concrete inputs on which the theorems below are instantiated.\<close>

definition ex_se :: "expr \<Rightarrow> node option \<times> nat" where
  "ex_se r = (if is_MethodCallExpression r then (Some (N_Expr r), 1) else (None, 0))"

definition ex_call :: expr where
  "ex_call = MethodCallExpression 7 (PathExpression 6 ''f'') (MethodInstance OtherMethod [])"

definition ex_assign_const :: stmt where
  "ex_assign_const = AssignmentStatement 3 30 (PathExpression 1 ''x'') (Constant 2 1)"

definition ex_assign_call :: stmt where
  "ex_assign_call = AssignmentStatement 8 80 (PathExpression 5 ''x'') ex_call"

definition ex_no_uses :: HasUses where
  "ex_no_uses = \<lparr>used = {}, tracker = SliceTracker_default\<rparr>"

type_synonym ex_defs = "(nat \<Rightarrow> ProgramPoints) \<times> bool"

definition ex_collab ::
  "(ProgramPoint \<Rightarrow> ex_defs) \<Rightarrow> (node_id \<Rightarrow> nat option) \<Rightarrow> (nat \<Rightarrow> bool)
     \<Rightarrow> (expr \<Rightarrow> node_id option) \<Rightarrow> (expr \<Rightarrow> ir_type option)
     \<Rightarrow> (nat, nat list, ex_defs) collaborators" where
  "ex_collab D stor emp decl ty =
     \<lparr>getDefinitions = D,
      getPoints = (\<lambda>df ls. concat (map (fst df) ls)),
      isUnreachable = snd,
      joinDefinitions = (\<lambda>a b. (\<lambda>l. fst a l @ fst b l, snd a \<and> snd b)),
      getStorage = stor,
      storageTypeIsEmpty = emp,
      removeHeaders = (\<lambda>st. [st]),
      LocationSet_of = (\<lambda>st. [st]),
      LocationSet_empty = [],
      getField = (\<lambda>ls f. map (\<lambda>l. 10 * l + length f) ls),
      getIndex = (\<lambda>ls i. map (\<lambda>l. 10 * l + nat i) ls),
      getArrayLastIndex = map (\<lambda>l. 10 * l + 8),
      getValidField = map (\<lambda>l. 10 * l + 9),
      isEmpty = (\<lambda>ls. ls = []),
      getDeclaration = decl,
      getType = ty,
      isHit = (\<lambda>e. False),
      isActionRun = (\<lambda>e. False),
      validFieldName = ''$valid''\<rparr>"

definition ex_state :: "nat list FindUninitialized" where
  "ex_state =
     \<lparr>context = [], lhs = False, currentPoint = [], readLocations = Map.empty,
      hasUses = ex_no_uses, unreachable = False, virtualMethod = False, diagnostics = []\<rparr>"

text \<open>Every location is reached from before the start, and every storage has an empty type.\<close>

definition ex_unwritten :: "ProgramPoint \<Rightarrow> ex_defs" where
  "ex_unwritten p = (\<lambda>l. [beforeStart], False)"

definition ex_collab_empty_type :: "(nat, nat list, ex_defs) collaborators" where
  "ex_collab_empty_type =
     ex_collab ex_unwritten (\<lambda>i. Some i) (\<lambda>st. True) (\<lambda>e. None) (\<lambda>e. None)"

definition ex_written_by :: "stmt \<Rightarrow> ProgramPoint \<Rightarrow> ex_defs" where
  "ex_written_by a p = (\<lambda>l. [beforeStart, [Some (N_Stmt a)]], False)"

text \<open>Every location is reached from before the start and from the write \<^verbatim>\<open>x = 1\<close>.\<close>

definition ex_collab_written :: "(nat, nat list, ex_defs) collaborators" where
  "ex_collab_written =
     ex_collab (ex_written_by ex_assign_const) (\<lambda>i. Some i) (\<lambda>st. False) (\<lambda>e. Some 1)
       (\<lambda>e. Some Type_Base)"

definition ex_x :: expr where
  "ex_x = PathExpression 1 ''x''"

definition ex_collab_typed :: "(nat, nat list, ex_defs) collaborators" where
  "ex_collab_typed =
     ex_collab ex_unwritten (\<lambda>i. Some i) (\<lambda>st. False) (\<lambda>e. Some 1) (\<lambda>e. Some Type_Base)"

definition ex_state_x :: "nat list FindUninitialized" where
  "ex_state_x = ex_state\<lparr>readLocations := [ex_x \<mapsto> [1]]\<rparr>"

definition ex_hs :: expr where
  "ex_hs = PathExpression 3 ''hs''"

text \<open>A header stack \<open>hs\<close>: the path has stack type, its members header type.\<close>

definition ex_collab_stack :: "(nat, nat list, ex_defs) collaborators" where
  "ex_collab_stack =
     ex_collab (ex_written_by ex_assign_const) (\<lambda>i. Some i) (\<lambda>st. False) (\<lambda>e. Some 1)
       (\<lambda>e. if e = ex_hs then Some Type_Stack else Some Type_Header)"

definition ex_state_hs :: "nat list FindUninitialized" where
  "ex_state_hs = ex_state\<lparr>readLocations := [ex_hs \<mapsto> [1]]\<rparr>"

text \<open>\<^verbatim>\<open>bit<8> g() { if (c) return 1; }\<close>\<close>

definition ex_g :: decl where
  "ex_g = Function 10 ''g'' Type_Base []
            (BlockStatement 9
               [Stat (IfStatement 8 (PathExpression 5 ''c'')
                        (ReturnStatement 7 (Some (Constant 6 1))) None)])"

text \<open>A parser that writes its out parameter \<open>md\<close> in \<open>start\<close>; the definitions at
  \<open>accept\<close> hold the write, those at \<open>reject\<close> do not.\<close>

definition ex_md_write :: stmt where
  "ex_md_write = AssignmentStatement 13 0 (PathExpression 11 ''md'') (Constant 12 1)"

definition ex_accept :: decl where
  "ex_accept = ParserState 4 ''accept'' [] None"

definition ex_reject :: decl where
  "ex_reject = ParserState 5 ''reject'' [] None"

definition ex_parser :: decl where
  "ex_parser =
     P4Parser 1 ''prs'' [Parameter 2 ''md'' Out] []
       [ParserState 3 ''start'' [Stat ex_md_write] None, ex_accept, ex_reject]"

definition ex_parser_defs :: "ProgramPoint \<Rightarrow> ex_defs" where
  "ex_parser_defs p =
     (if p = pp_node (N_Decl ex_accept) then (\<lambda>l. [[Some (N_Stmt ex_md_write)]], False)
      else (\<lambda>l. [beforeStart], False))"

definition ex_collab_parser :: "(nat, nat list, ex_defs) collaborators" where
  "ex_collab_parser =
     ex_collab ex_parser_defs (\<lambda>i. Some i) (\<lambda>st. False) (\<lambda>e. Some 2) (\<lambda>e. Some Type_Base)"

text \<open>The same parser when the type of \<open>md\<close> is empty.\<close>

definition ex_collab_parser_empty :: "(nat, nat list, ex_defs) collaborators" where
  "ex_collab_parser_empty =
     ex_collab ex_parser_defs (\<lambda>i. Some i) (\<lambda>st. True) (\<lambda>e. Some 2) (\<lambda>e. Some Type_Base)"




text \<open>\<^verbatim>\<open>a[3:0] = 1; a[7:0][3:0] = 2;\<close> with the first write reaching every later point.\<close>

definition ex_prev :: stmt where
  "ex_prev = AssignmentStatement 34 0 (Slice (MkSlice 32 (PathExpression 31 ''a'') 3 0)) (Constant 33 1)"

definition ex_nested :: slice where
  "ex_nested = MkSlice 37 (Slice (MkSlice 36 (PathExpression 35 ''a'') 7 0)) 3 0"

definition ex_nested_assign :: stmt where
  "ex_nested_assign = AssignmentStatement 39 0 (Slice ex_nested) (Constant 38 2)"

definition ex_collab_nested :: "(nat, nat list, ex_defs) collaborators" where
  "ex_collab_nested =
     ex_collab (\<lambda>p. (\<lambda>l. [[Some (N_Stmt ex_prev)]], False)) (\<lambda>i. Some i) (\<lambda>st. False)
       (\<lambda>e. Some 1) (\<lambda>e. Some Type_Base)"

text \<open>A header \<open>h\<close> with a field \<open>f\<close>: the path has header type, the member a base type.\<close>

definition ex_h :: expr where
  "ex_h = PathExpression 41 ''h''"

definition ex_h_f :: expr where
  "ex_h_f = Member 42 ex_h ''f''"

definition ex_collab_header :: "(nat, nat list, ex_defs) collaborators" where
  "ex_collab_header =
     ex_collab (ex_written_by ex_assign_const) (\<lambda>i. Some i) (\<lambda>st. False) (\<lambda>e. Some 4)
       (\<lambda>e. if e = ex_h then Some Type_Header else Some Type_Base)"

section \<open>Facts about the helpers\<close>

lemma HasUses_add_tracker: "tracker (HasUses_add H ps) = tracker H"
  by (induction ps arbitrary: H) (auto split: option.splits)

lemma HasUses_add_used:
  "used (HasUses_add H ps) =
     used H \<union> {n. \<exists>p \<in> set ps. \<not> overwrites (tracker H) p \<and> pp_last p = Some n}"
proof (induction ps arbitrary: H)
  case Nil
  then show ?case by simp
next
  case (Cons e ps)
  show ?case
  proof (cases "overwrites (tracker H) e")
    case True
    then show ?thesis using Cons.IH [of H] by auto
  next
    case False
    show ?thesis
    proof (cases "pp_last e")
      case None
      then show ?thesis using False Cons.IH [of H] by auto
    next
      case (Some l)
      then show ?thesis using False Cons.IH [of "H\<lparr>used := insert l (used H)\<rparr>"] by auto
    qed
  qed
qed


lemma registerUses_frame:
  assumes "registerUses E ctx e rep s = Inr s'"
  shows "readLocations s' = readLocations s" "lhs s' = lhs s" "currentPoint s' = currentPoint s"
    "context s' = context s" "unreachable s' = unreachable s" "virtualMethod s' = virtualMethod s"
    "tracker (hasUses s') = tracker (hasUses s)"
    "\<exists>ps. hasUses s' = HasUses_add (hasUses s) ps"
  using assms
  by (auto simp: registerUses_def Let_def report_def getType_notNull_def HasUses_add_tracker
      split: if_splits option.splits sum.splits intro: exI [of _ "[]"])

lemma checkOutParameter_diagnostics:
  "diagnostics (checkOutParameter E block defs s p) =
     diagnostics s @ expected_out_param_warnings E block defs p"
  by (cases p) (simp add: Let_def report_def out_param_warning_def split: option.splits)

lemma checkOutParameter_frame:
  "tracker (hasUses (checkOutParameter E block defs s p)) = tracker (hasUses s)"
  "used (hasUses s) \<subseteq> used (hasUses (checkOutParameter E block defs s p))"
  by (cases p; simp add: Let_def report_def HasUses_add_tracker HasUses_add_used
      split: option.splits)+

lemma checkOutParameter_hasUses:
  "(d = Out \<or> d = InOut) \<Longrightarrow> getStorage E i = Some storage \<Longrightarrow>
   hasUses (checkOutParameter E block defs s (Parameter i n d)) =
     HasUses_add (hasUses s) (getPoints E defs (LocationSet_of E storage))"
  by (simp add: Let_def report_def)

lemma checkOutParameters_diagnostics:
  "diagnostics (checkOutParameters E block ps defs s) =
     diagnostics s @ concat (map (expected_out_param_warnings E block defs) ps)"
  unfolding checkOutParameters_def
  by (induction ps arbitrary: s) (simp_all add: checkOutParameter_diagnostics)

lemma checkOutParameters_tracker:
  "tracker (hasUses (checkOutParameters E block ps defs s)) = tracker (hasUses s)"
  unfolding checkOutParameters_def
  by (induction ps arbitrary: s) (simp_all add: checkOutParameter_frame)

lemma checkOutParameters_used_mono:
  "used (hasUses s) \<subseteq> used (hasUses (checkOutParameters E block ps defs s))"
  unfolding checkOutParameters_def
proof (induction ps arbitrary: s)
  case Nil
  then show ?case by simp
next
  case (Cons p ps)
  have "used (hasUses s) \<subseteq> used (hasUses (checkOutParameter E block defs s p))"
    by (rule checkOutParameter_frame)
  also have "\<dots> \<subseteq> used (hasUses (foldl (checkOutParameter E block defs)
                                    (checkOutParameter E block defs s p) ps))"
    by (rule Cons.IH)
  finally show ?case by simp
qed

lemma checkOutParameters_used:
  assumes "Parameter i n d \<in> set ps" "d = Out \<or> d = InOut" "getStorage E i = Some storage"
  shows "used (HasUses_add (hasUses s) (getPoints E defs (LocationSet_of E storage)))
           \<subseteq> used (hasUses (checkOutParameters E block ps defs s))"
  using assms(1)
proof (induction ps arbitrary: s)
  case Nil
  then show ?case by simp
next
  case (Cons p ps)
  let ?s1 = "checkOutParameter E block defs s p"
  have step: "checkOutParameters E block (p # ps) defs s = checkOutParameters E block ps defs ?s1"
    by (simp add: checkOutParameters_def)
  show ?case
  proof (cases "p = Parameter i n d")
    case True
    have "hasUses ?s1 = HasUses_add (hasUses s) (getPoints E defs (LocationSet_of E storage))"
      unfolding True by (rule checkOutParameter_hasUses [OF assms(2,3)])
    then show ?thesis
      using checkOutParameters_used_mono [where s = "?s1" and E = E and block = block and ps = ps
          and defs = defs] step by simp
  next
    case False
    then have "Parameter i n d \<in> set ps" using Cons.prems by simp
    then have "used (HasUses_add (hasUses ?s1) (getPoints E defs (LocationSet_of E storage)))
                 \<subseteq> used (hasUses (checkOutParameters E block ps defs ?s1))"
      by (rule Cons.IH)
    moreover have "used (HasUses_add (hasUses s) (getPoints E defs (LocationSet_of E storage)))
                 \<subseteq> used (HasUses_add (hasUses ?s1) (getPoints E defs (LocationSet_of E storage)))"
      using checkOutParameter_frame [where E = E and block = block and defs = defs and s = s and p = p]
      by (auto simp: HasUses_add_used)
    ultimately show ?thesis using step by auto
  qed
qed

lemma expected_warning_mem:
  "out_param_warning block p \<in> set (concat (map (expected_out_param_warnings E block defs) ps))
     \<longleftrightarrow> p \<in> set ps \<and> expected_out_param_warnings E block defs p \<noteq> []"
proof -
  have one: "out_param_warning block p \<in> set (expected_out_param_warnings E block defs q)
               \<longleftrightarrow> q = p \<and> expected_out_param_warnings E block defs p \<noteq> []" for q
    by (cases q; cases p) (auto simp: out_param_warning_def split: option.splits)
  show ?thesis by (auto simp: one)
qed

lemma checkOutParameters_warning_mem:
  "out_param_warning block p \<in> set (diagnostics (checkOutParameters E block ps defs s)) \<longleftrightarrow>
     out_param_warning block p \<in> set (diagnostics s) \<or>
     (p \<in> set ps \<and> expected_out_param_warnings E block defs p \<noteq> [])"
  by (simp only: checkOutParameters_diagnostics set_append Un_iff expected_warning_mem)

lemma isFinalRead_iff:
  "isFinalRead ctx e \<longleftrightarrow>
     \<not> (\<exists>i b m rest. ctx = N_Expr (Member i b m) # rest) \<and>
     \<not> (\<exists>i r rest. ctx = N_Expr (ArrayIndex i e r) # rest)"
  by (cases "(ctx, e)" rule: isFinalRead.cases) auto

lemma registerUses_noop:
  "\<not> isFinalRead ctx e \<or> isUnreachable E (getDefinitions E (currentPoint s)) \<or>
   readLocations s e = None \<or> (\<exists>rd. readLocations s e = Some rd \<and> isEmpty E rd) \<Longrightarrow>
   registerUses E ctx e rep s = Inr s"
  by (auto simp: registerUses_def getCurrentDefinitions_def getReads_def)

lemma registerUses_quiet:
  assumes "isFinalRead ctx e" "\<not> isUnreachable E (getDefinitions E (currentPoint s))"
    "readLocations s e = Some rd" "\<not> isEmpty E rd"
    "\<not> (rep \<and> \<not> lhs s \<and> containsBeforeStart (getPoints E (getDefinitions E (currentPoint s)) rd))"
  shows "registerUses E ctx e rep s =
           Inr (s\<lparr>hasUses := HasUses_add (hasUses s)
                                (getPoints E (getDefinitions E (currentPoint s)) rd)\<rparr>)"
  using assms by (auto simp: registerUses_def getCurrentDefinitions_def getReads_def Let_def)

lemma registerUses_warns:
  assumes "isFinalRead ctx e" "\<not> isUnreachable E (getDefinitions E (currentPoint s))"
    "readLocations s e = Some rd" "\<not> isEmpty E rd"
    "rep" "\<not> lhs s" "containsBeforeStart (getPoints E (getDefinitions E (currentPoint s)) rd)"
    "getType E e = Some ty"
  shows "registerUses E ctx e rep s =
           Inr (s\<lparr>diagnostics := diagnostics s @
                    [Diagnostic WARN_UNINITIALIZED_USE
                       (if ty = Type_Base then ''%1% may be uninitialized''
                        else ''%1% may not be completely initialized'') [A_Expr e]],
                  hasUses := HasUses_add (hasUses s)
                               (getPoints E (getDefinitions E (currentPoint s)) rd)\<rparr>)"
  using assms
  by (simp add: registerUses_def getCurrentDefinitions_def getReads_def Let_def
      getType_notNull_def report_def)

lemma registerUses_no_report:
  "registerUses E ctx e False s =
     Inr (s\<lparr>hasUses :=
              (case readLocations s e of
                 None \<Rightarrow> hasUses s
               | Some rd \<Rightarrow>
                   if isFinalRead ctx e \<and> \<not> isUnreachable E (getDefinitions E (currentPoint s)) \<and>
                      \<not> isEmpty E rd
                   then HasUses_add (hasUses s) (getPoints E (getDefinitions E (currentPoint s)) rd)
                   else hasUses s)\<rparr>)"
  by (auto simp: registerUses_def getCurrentDefinitions_def getReads_def Let_def
      split: option.splits)

lemma expected_out_param_warnings_type:
  "d \<in> set (concat (map (expected_out_param_warnings E block defs) ps)) \<Longrightarrow>
   \<exists>p. d = out_param_warning block p"
proof -
  have "d \<in> set (expected_out_param_warnings E block defs p) \<Longrightarrow> d = out_param_warning block p"
    for p
    by (cases p) (auto split: option.splits if_splits)
  moreover assume "d \<in> set (concat (map (expected_out_param_warnings E block defs) ps))"
  ultimately show ?thesis by auto
qed



lemma visit_slice_tracker:
  assumes "visit_expr E ctx (Slice sl) s = Inr s'"
  shows "tracker (hasUses s') = SliceTracker_default"
  using assms
  by (cases sl) (auto simp: doneWatching_def split: if_splits sum.splits)

lemma visit_slice_steps:
  assumes "visit_expr E ctx (Slice (MkSlice i e0 h l)) s = Inr s'"
    and "findContext_AssignmentStatement ctx \<noteq> None" "lhs s"
  shows "\<exists>s2 storage s4.
           \<not> isActive (tracker (hasUses s)) \<and>
           visit_expr E (N_Expr (Slice (MkSlice i e0 h l)) # ctx) e0
             (s\<lparr>hasUses := (hasUses s)\<lparr>tracker := SliceTracker_of (MkSlice i e0 h l)\<rparr>,
                lhs := False\<rparr>) = Inr s2 \<and>
           readLocations s2 e0 = Some storage \<and> \<not> unreachable s2 \<and>
           registerUses E ctx (Slice (MkSlice i e0 h l)) True
             (s2\<lparr>readLocations := (readLocations s2)(Slice (MkSlice i e0 h l) \<mapsto> storage)\<rparr>) =
               Inr s4 \<and>
           s' = s4\<lparr>lhs := True, hasUses := doneWatching (hasUses s4)\<rparr>"
  using assms
  by (auto simp: watchForOverwrites_def getReads_nonNull_def reads_def
      split: if_splits sum.splits option.splits)

lemma registerUses_typed:
  assumes "getType E e = Some ty"
  shows "\<exists>s'. registerUses E ctx e rep s = Inr s'"
  using assms
  by (auto simp: registerUses_def Let_def getType_notNull_def split: option.splits)

lemma headerValidRead_no_header:
  assumes "headerValidRead E ctx expr parent (loc, s) = Inr (loc', s')"
    and "getType E parent = Some Type_Header \<longrightarrow> parent = expr"
  shows "loc' = loc \<and> s' = s"
  using assms
  by (auto simp: headerValidRead_def getType_notNull_def split: option.splits if_splits)

lemma checkHeaderFieldWrite_no_header:
  "checkHeaderFieldWrite E ctx expr parent s = Inr (loc, s') \<Longrightarrow>
   (\<forall>q \<in> set (walked parent). getType E q = Some Type_Header \<longrightarrow> q = expr) \<Longrightarrow> s' = s"
proof (induction E ctx expr parent s arbitrary: loc s' rule: checkHeaderFieldWrite.induct)
  case (1 E ctx expr i e m s)
  from "1.prems"(1) obtain loc1 s1 where
    r: "checkHeaderFieldWrite E ctx expr e s = Inr (loc1, s1)"
    and h: "headerValidRead E ctx expr (Member i e m) (getField E loc1 m, s1) = Inr (loc, s')"
    by (auto split: sum.splits)
  have "s1 = s" using "1.IH" [OF r] "1.prems"(2) by simp
  moreover have "s' = s1" using headerValidRead_no_header [OF h] "1.prems"(2) by simp
  ultimately show ?case by simp
next
  case (2 E ctx expr i l r s)
  from "2.prems"(1) obtain loc1 s1 where
    r: "checkHeaderFieldWrite E ctx expr l s = Inr (loc1, s1)"
    and h: "headerValidRead E ctx expr (ArrayIndex i l r)
              ((case r of Constant j index \<Rightarrow> getIndex E loc1 index | _ \<Rightarrow> loc1), s1) = Inr (loc, s')"
    by (auto split: sum.splits)
  have "s1 = s" using "2.IH" [OF r] "2.prems"(2) by simp
  moreover have "s' = s1" using headerValidRead_no_header [OF h] "2.prems"(2) by simp
  ultimately show ?case by simp
next
  case (3 E ctx expr i p s)
  then show ?case
    by (auto split: option.splits dest!: headerValidRead_no_header)
next
  case (4 E ctx expr i e0 h l s)
  from "4.prems"(1) obtain loc1 s1 where
    r: "checkHeaderFieldWrite E ctx expr e0 s = Inr (loc1, s1)"
    and h: "headerValidRead E ctx expr (Slice (MkSlice i e0 h l)) (loc1, s1) = Inr (loc, s')"
    by (cases "checkHeaderFieldWrite E ctx expr e0 s") (auto split: sum.splits)
  have "s1 = s" using "4.IH" [OF r] "4.prems"(2) by simp
  moreover have "s' = s1" using headerValidRead_no_header [OF h] "4.prems"(2) by simp
  ultimately show ?case by simp
qed simp_all


lemma HasUses_add_inserted:
  "used (HasUses_add H ps) = used H \<union> inserted_nodes (tracker H) ps"
  by (simp add: HasUses_add_used inserted_nodes_def)

lemma registerUses_used:
  assumes "registerUses E ctx e rep s = Inr s'"
  shows "used (hasUses s') =
           used (hasUses s) \<union>
             (case readLocations s e of
                None \<Rightarrow> {}
              | Some rd \<Rightarrow>
                  if isFinalRead ctx e \<and> \<not> isUnreachable E (getDefinitions E (currentPoint s)) \<and>
                     \<not> isEmpty E rd
                  then inserted_nodes (tracker (hasUses s))
                         (getPoints E (getDefinitions E (currentPoint s)) rd)
                  else {})"
  using assms
  by (auto simp: registerUses_def Let_def report_def getType_notNull_def getReads_def
      getCurrentDefinitions_def HasUses_add_inserted split: if_splits option.splits sum.splits)









lemma walked_smaller: "q \<in> set (walked e) \<and> q \<noteq> e \<Longrightarrow> size q < size e"
proof (induction e rule: walked.induct)
  case (1 i e m)
  then show ?case by (cases "q = e") auto
next
  case (2 i l r)
  then show ?case by (cases "q = l") auto
next
  case (3 i e0 h l)
  then show ?case by (cases "q = e0") auto
qed auto

section \<open>RemoveUnused on assignments\<close>

text \<open>
  Claim C1. An assignment whose original node is in \<open>HasUses\<close> is returned unchanged. One
  whose original node is not in \<open>HasUses\<close> is replaced: by an empty statement when the
  side-effect analysis of the right-hand side finds no node with a side effect; otherwise
  the analysis must have counted exactly one side effect and the node must be a method call
  expression, and the result is a method call statement with that call and the source info
  of the assignment; when either condition is violated the pass aborts with a BUG.
\<close>

theorem RemoveUnused_assignment:
  "(hasUses_of H original \<longrightarrow>
      RemoveUnused_postorder se hse H fresh original (AssignmentStatement i src l r) =
        Inr (AssignmentStatement i src l r)) \<and>
   (\<not> hasUses_of H original \<and> fst (se r) = None \<longrightarrow>
      RemoveUnused_postorder se hse H fresh original (AssignmentStatement i src l r) =
        Inr (EmptyStatement fresh)) \<and>
   (\<not> hasUses_of H original \<and> fst (se r) = Some n \<longrightarrow>
      (if snd (se r) = 1 \<and> (\<exists>j m mi. n = N_Expr (MethodCallExpression j m mi))
       then \<exists>mce. n = N_Expr mce \<and>
              RemoveUnused_postorder se hse H fresh original (AssignmentStatement i src l r) =
                Inr (MethodCallStatement fresh src mce)
       else \<exists>b. RemoveUnused_postorder se hse H fresh original (AssignmentStatement i src l r) =
                Inl b))"
  by (auto split: node.splits expr.splits)

theorem RemoveUnused_assignment_witness:
  "RemoveUnused_postorder ex_se (\<lambda>e. True) \<lparr>used = {N_Stmt ex_assign_const}, tracker = SliceTracker_default\<rparr>
      100 (N_Stmt ex_assign_const) ex_assign_const = Inr ex_assign_const \<and>
   RemoveUnused_postorder ex_se (\<lambda>e. True) ex_no_uses 100 (N_Stmt ex_assign_const) ex_assign_const =
     Inr (EmptyStatement 100) \<and>
   RemoveUnused_postorder ex_se (\<lambda>e. True) ex_no_uses 100 (N_Stmt ex_assign_call) ex_assign_call =
     Inr (MethodCallStatement 100 80 ex_call)"
  using
    RemoveUnused_assignment [where H = "\<lparr>used = {N_Stmt ex_assign_const}, tracker = SliceTracker_default\<rparr>"
      and original = "N_Stmt ex_assign_const" and se = ex_se and hse = "\<lambda>e. True" and fresh = 100
      and i = 3 and src = 30 and l = "PathExpression 1 ''x''" and r = "Constant 2 1"]
    RemoveUnused_assignment [where H = ex_no_uses
      and original = "N_Stmt ex_assign_const" and se = ex_se and hse = "\<lambda>e. True" and fresh = 100
      and i = 3 and src = 30 and l = "PathExpression 1 ''x''" and r = "Constant 2 1"]
    RemoveUnused_assignment [where H = ex_no_uses
      and original = "N_Stmt ex_assign_call" and se = ex_se and hse = "\<lambda>e. True" and fresh = 100
      and i = 8 and src = 80 and l = "PathExpression 5 ''x''" and r = ex_call and n = "N_Expr ex_call"]
  by (simp add: ex_se_def ex_call_def ex_assign_const_def ex_assign_call_def ex_no_uses_def
      hasUses_of_def)

section \<open>Covering slice writes\<close>





section \<open>checkOutParameters\<close>

text \<open>
  Claim C3, as stated: for every Out or InOut parameter with storage, the reaching points of
  its full location set are added to \<open>HasUses\<close>, and the warning
  \<open>WARN_UNINITIALIZED_OUT_PARAM\<close> is emitted if and only if the reaching points of the storage
  with the headers removed contain before-start. The second half fails for a storage of
  empty type: there the points contain before-start and no warning is emitted.
\<close>

theorem checkOutParameters_iff_counterexample:
  "containsBeforeStart
     (getPoints ex_collab_empty_type (ex_unwritten []) (removeHeaders ex_collab_empty_type 1)) \<and>
   getStorage ex_collab_empty_type 1 = Some 1 \<and>
   out_param_warning ''c'' (Parameter 1 ''p'' Out)
     \<notin> set (diagnostics (checkOutParameters ex_collab_empty_type ''c'' [Parameter 1 ''p'' Out]
                (ex_unwritten []) ex_state))"
  by (simp add: ex_collab_empty_type_def ex_collab_def ex_unwritten_def ex_state_def
      containsBeforeStart_def checkOutParameters_def report_def Let_def ex_no_uses_def)

text \<open>
  Claim C3, amended: for every parameter of direction Out or InOut that has storage,
  \<^verbatim>\<open>checkOutParameters\<close> adds the reaching points for that storage's full location set to
  \<open>HasUses\<close> (through \<open>HasUses_add\<close>: the last node of every such point that the slice
  tracker does not skip is in the used set afterwards), and emits \<open>WARN_UNINITIALIZED_OUT_PARAM\<close> naming the
  parameter and the block if and only if the type of the storage is not empty and the
  reaching points for the storage with header locations removed contain before-start.
\<close>

theorem checkOutParameters_warns:
  assumes "Parameter i n d \<in> set ps" "d = Out \<or> d = InOut" "getStorage E i = Some storage"
    and "out_param_warning block (Parameter i n d) \<notin> set (diagnostics s)"
  shows "used (HasUses_add (hasUses s) (getPoints E defs (LocationSet_of E storage)))
           \<subseteq> used (hasUses (checkOutParameters E block ps defs s)) \<and>
         inserted_nodes (tracker (hasUses s)) (getPoints E defs (LocationSet_of E storage))
           \<subseteq> used (hasUses (checkOutParameters E block ps defs s)) \<and>
         (out_param_warning block (Parameter i n d)
            \<in> set (diagnostics (checkOutParameters E block ps defs s)) \<longleftrightarrow>
          \<not> storageTypeIsEmpty E storage \<and>
          containsBeforeStart (getPoints E defs (removeHeaders E storage)))"
  using assms checkOutParameters_used [OF assms(1-3), of s defs block]
  by (simp add: checkOutParameters_warning_mem HasUses_add_inserted)

theorem checkOutParameters_warns_witness:
  "containsBeforeStart
     (getPoints ex_collab_written (ex_written_by ex_assign_const [])
        (removeHeaders ex_collab_written 1)) \<and>
   out_param_warning ''c'' (Parameter 1 ''p'' Out)
     \<in> set (diagnostics (checkOutParameters ex_collab_written ''c''
                [Parameter 0 ''q'' In, Parameter 1 ''p'' Out] (ex_written_by ex_assign_const [])
                ex_state)) \<and>
   N_Stmt ex_assign_const
     \<in> used (hasUses (checkOutParameters ex_collab_written ''c''
                [Parameter 0 ''q'' In, Parameter 1 ''p'' Out] (ex_written_by ex_assign_const [])
                ex_state))"
proof -
  have ins: "N_Stmt ex_assign_const
     \<in> inserted_nodes (tracker (hasUses ex_state))
         (getPoints ex_collab_written (ex_written_by ex_assign_const [])
            (LocationSet_of ex_collab_written 1))"
    by (auto simp: inserted_nodes_def ex_state_def ex_no_uses_def overwrites_def isActive_def
        SliceTracker_default_def pp_last_def ex_collab_written_def ex_collab_def ex_written_by_def)
  show ?thesis
    using checkOutParameters_warns [where E = ex_collab_written and i = 1 and n = "''p''"
      and d = Out and ps = "[Parameter 0 ''q'' In, Parameter 1 ''p'' Out]" and storage = 1
      and block = "''c''" and s = ex_state and defs = "ex_written_by ex_assign_const []"] ins
    by (auto simp: ex_collab_written_def ex_collab_def ex_written_by_def ex_state_def
        containsBeforeStart_def)
qed


section \<open>Writes to the fields of a header\<close>

text \<open>
  Claim C4. When the left-hand side \<open>expr\<close> of an assignment is walked,
  \<^verbatim>\<open>checkHeaderFieldWrite\<close> records a read of the header's validity bit against \<open>expr\<close>
  exactly when the walked sub-expression \<open>parent\<close> has header type and is not \<open>expr\<close> itself,
  that is, when it lies strictly inside \<open>expr\<close>: every walked expression other than \<open>expr\<close>
  is smaller than \<open>expr\<close>. Recording the read sets the read set of \<open>expr\<close> to the valid field
  and registers its uses: when \<open>expr\<close> is a final read, the definitions are reachable and the
  valid field is not empty, the last nodes of the reaching points of the valid field enter
  the used set of \<open>HasUses\<close>. A walk that meets no such sub-expression leaves the state as it
  was. So assigning to a field of a header (\<^verbatim>\<open>h.f = e\<close>) registers a read of the valid field
  of \<^verbatim>\<open>h\<close>, while assigning to the whole header (\<^verbatim>\<open>h = e\<close>) registers no read.
\<close>

theorem header_field_write:
  "(headerValidRead E ctx expr parent (loc, s) = Inr (loc', s') \<longrightarrow>
      (getType E parent = Some Type_Header \<and> expr \<noteq> parent \<longrightarrow>
         loc' = getValidField E loc \<and>
         readLocations s' expr = Some (getValidField E loc) \<and>
         registerUses E ctx expr True
           (s\<lparr>readLocations := (readLocations s)(expr \<mapsto> getValidField E loc)\<rparr>) = Inr s' \<and>
         used (hasUses s') =
           used (hasUses s) \<union>
             (if isFinalRead ctx expr \<and> \<not> isUnreachable E (getDefinitions E (currentPoint s)) \<and>
                 \<not> isEmpty E (getValidField E loc)
              then inserted_nodes (tracker (hasUses s))
                     (getPoints E (getDefinitions E (currentPoint s)) (getValidField E loc))
              else {})) \<and>
      (\<not> (getType E parent = Some Type_Header \<and> expr \<noteq> parent) \<longrightarrow> loc' = loc \<and> s' = s)) \<and>
   (checkHeaderFieldWrite E ctx expr parent s = Inr (loc, s') \<and>
    (\<forall>q \<in> set (walked parent). getType E q = Some Type_Header \<longrightarrow> q = expr) \<longrightarrow> s' = s) \<and>
   (q \<in> set (walked expr) \<and> q \<noteq> expr \<longrightarrow> size q < size expr) \<and>
   (getDeclaration E (PathExpression j p) = Some d \<and> getStorage E d = Some st \<and>
    getType E (PathExpression j p) = Some Type_Header \<and> \<not> unreachable s \<longrightarrow>
      (getType E (Member i (PathExpression j p) f) = Some ty \<and> ty \<noteq> Type_Header \<longrightarrow>
         (\<exists>sf. checkHeaderFieldWrite E ctx (Member i (PathExpression j p) f)
                 (Member i (PathExpression j p) f) s =
                 Inr (getField E (getValidField E (LocationSet_of E st)) f, sf) \<and>
               readLocations sf (Member i (PathExpression j p) f) =
                 Some (getValidField E (LocationSet_of E st)) \<and>
               used (hasUses sf) =
                 used (hasUses s) \<union>
                   (if isFinalRead ctx (Member i (PathExpression j p) f) \<and>
                       \<not> isUnreachable E (getDefinitions E (currentPoint s)) \<and>
                       \<not> isEmpty E (getValidField E (LocationSet_of E st))
                    then inserted_nodes (tracker (hasUses s))
                           (getPoints E (getDefinitions E (currentPoint s))
                              (getValidField E (LocationSet_of E st)))
                    else {}))) \<and>
      checkHeaderFieldWrite E ctx (PathExpression j p) (PathExpression j p) s =
        Inr (LocationSet_of E st, s))"
proof (intro conjI impI)
  assume a: "headerValidRead E ctx expr parent (loc, s) = Inr (loc', s')"
    and b: "getType E parent = Some Type_Header \<and> expr \<noteq> parent"
  have r: "registerUses E ctx expr True
            (s\<lparr>readLocations := (readLocations s)(expr \<mapsto> getValidField E loc)\<rparr>) = Inr s'"
    and l: "loc' = getValidField E loc"
    using a b
    by (auto simp: headerValidRead_def getType_notNull_def reads_def split: if_splits sum.splits)
  show "loc' = getValidField E loc" by (rule l)
  show "registerUses E ctx expr True
            (s\<lparr>readLocations := (readLocations s)(expr \<mapsto> getValidField E loc)\<rparr>) = Inr s'"
    by (rule r)
  show "readLocations s' expr = Some (getValidField E loc)"
    using registerUses_frame(1) [OF r] by simp
  show "used (hasUses s') =
           used (hasUses s) \<union>
             (if isFinalRead ctx expr \<and> \<not> isUnreachable E (getDefinitions E (currentPoint s)) \<and>
                 \<not> isEmpty E (getValidField E loc)
              then inserted_nodes (tracker (hasUses s))
                     (getPoints E (getDefinitions E (currentPoint s)) (getValidField E loc))
              else {})"
    using registerUses_used [OF r] by simp
next
  assume a: "headerValidRead E ctx expr parent (loc, s) = Inr (loc', s')"
    and b: "\<not> (getType E parent = Some Type_Header \<and> expr \<noteq> parent)"
  have "loc' = loc \<and> s' = s"
    using headerValidRead_no_header [OF a] b by auto
  then show "loc' = loc" and "s' = s" by simp_all
next
  assume w: "checkHeaderFieldWrite E ctx expr parent s = Inr (loc, s') \<and>
    (\<forall>q \<in> set (walked parent). getType E q = Some Type_Header \<longrightarrow> q = expr)"
  show "s' = s"
    by (rule checkHeaderFieldWrite_no_header [OF conjunct1 [OF w] conjunct2 [OF w]])
next
  assume "q \<in> set (walked expr) \<and> q \<noteq> expr"
  then show "size q < size expr"
    by (rule walked_smaller)
next
  let ?h = "PathExpression j p"
  let ?hf = "Member i ?h f"
  assume a: "getDeclaration E ?h = Some d \<and> getStorage E d = Some st \<and>
    getType E ?h = Some Type_Header \<and> \<not> unreachable s"
    and b: "getType E ?hf = Some ty \<and> ty \<noteq> Type_Header"
  obtain sf where r: "registerUses E ctx ?hf True
      (s\<lparr>readLocations := (readLocations s)(?hf \<mapsto> getValidField E (LocationSet_of E st))\<rparr>) =
        Inr sf"
    using registerUses_typed [of E ?hf ty] b by blast
  have "checkHeaderFieldWrite E ctx ?hf ?hf s =
          Inr (getField E (getValidField E (LocationSet_of E st)) f, sf)"
    using a b r by (simp add: headerValidRead_def getType_notNull_def reads_def)
  moreover have "readLocations sf ?hf = Some (getValidField E (LocationSet_of E st))"
    using registerUses_frame(1) [OF r] by simp
  moreover have "used (hasUses sf) =
                 used (hasUses s) \<union>
                   (if isFinalRead ctx ?hf \<and>
                       \<not> isUnreachable E (getDefinitions E (currentPoint s)) \<and>
                       \<not> isEmpty E (getValidField E (LocationSet_of E st))
                    then inserted_nodes (tracker (hasUses s))
                           (getPoints E (getDefinitions E (currentPoint s))
                              (getValidField E (LocationSet_of E st)))
                    else {})"
    using registerUses_used [OF r] by simp
  ultimately show "\<exists>sf. checkHeaderFieldWrite E ctx ?hf ?hf s =
                 Inr (getField E (getValidField E (LocationSet_of E st)) f, sf) \<and>
               readLocations sf ?hf = Some (getValidField E (LocationSet_of E st)) \<and>
               used (hasUses sf) =
                 used (hasUses s) \<union>
                   (if isFinalRead ctx ?hf \<and>
                       \<not> isUnreachable E (getDefinitions E (currentPoint s)) \<and>
                       \<not> isEmpty E (getValidField E (LocationSet_of E st))
                    then inserted_nodes (tracker (hasUses s))
                           (getPoints E (getDefinitions E (currentPoint s))
                              (getValidField E (LocationSet_of E st)))
                    else {})"
    by blast
next
  assume "getDeclaration E (PathExpression j p) = Some d \<and> getStorage E d = Some st \<and>
    getType E (PathExpression j p) = Some Type_Header \<and> \<not> unreachable s"
  then show "checkHeaderFieldWrite E ctx (PathExpression j p) (PathExpression j p) s =
        Inr (LocationSet_of E st, s)"
    by (simp add: headerValidRead_def getType_notNull_def)
qed

theorem header_field_write_witness:
  "(\<exists>sf. checkHeaderFieldWrite ex_collab_header [] ex_h_f ex_h_f (ex_state\<lparr>lhs := True\<rparr>) =
           Inr ([491], sf) \<and>
      readLocations sf ex_h_f = Some [49] \<and>
      used (hasUses sf) = {N_Stmt ex_assign_const}) \<and>
   checkHeaderFieldWrite ex_collab_header [] ex_h ex_h (ex_state\<lparr>lhs := True\<rparr>) =
     Inr ([4], ex_state\<lparr>lhs := True\<rparr>) \<and>
   used (hasUses (ex_state\<lparr>lhs := True\<rparr>)) = {} \<and>
   ex_h \<in> set (walked ex_h_f) \<and> size ex_h < size ex_h_f"
proof -
  have hyps: "getDeclaration ex_collab_header (PathExpression 41 ''h'') = Some 4 \<and>
      getStorage ex_collab_header 4 = Some 4 \<and>
      getType ex_collab_header (PathExpression 41 ''h'') = Some Type_Header \<and>
      \<not> unreachable (ex_state\<lparr>lhs := True\<rparr>)"
    and ty: "getType ex_collab_header (Member 42 (PathExpression 41 ''h'') ''f'') = Some Type_Base \<and>
      Type_Base \<noteq> Type_Header"
    and w: "PathExpression 41 ''h'' \<in> set (walked (Member 42 (PathExpression 41 ''h'') ''f'')) \<and>
      PathExpression 41 ''h'' \<noteq> Member 42 (PathExpression 41 ''h'') ''f''"
    by (simp_all add: ex_collab_header_def ex_collab_def ex_h_def ex_state_def)
  note all = header_field_write [where E = ex_collab_header and ctx = "[]" and j = 41
      and p = "''h''" and d = 4 and st = 4 and i = 42 and f = "''f''" and ty = Type_Base
      and s = "ex_state\<lparr>lhs := True\<rparr>" and q = "PathExpression 41 ''h''"
      and expr = "Member 42 (PathExpression 41 ''h'') ''f''", THEN conjunct2, THEN conjunct2]
  note sz = all [THEN conjunct1, rule_format, OF w]
  note inst = all [THEN conjunct2, rule_format, OF hyps]
  have "\<exists>sf. checkHeaderFieldWrite ex_collab_header [] (Member 42 (PathExpression 41 ''h'') ''f'')
                (Member 42 (PathExpression 41 ''h'') ''f'') (ex_state\<lparr>lhs := True\<rparr>) =
           Inr (getField ex_collab_header
                  (getValidField ex_collab_header (LocationSet_of ex_collab_header 4)) ''f'', sf) \<and>
      readLocations sf (Member 42 (PathExpression 41 ''h'') ''f'') =
        Some (getValidField ex_collab_header (LocationSet_of ex_collab_header 4)) \<and>
      used (hasUses sf) =
        used (hasUses (ex_state\<lparr>lhs := True\<rparr>)) \<union>
          (if isFinalRead [] (Member 42 (PathExpression 41 ''h'') ''f'') \<and>
              \<not> isUnreachable ex_collab_header
                  (getDefinitions ex_collab_header (currentPoint (ex_state\<lparr>lhs := True\<rparr>))) \<and>
              \<not> isEmpty ex_collab_header
                  (getValidField ex_collab_header (LocationSet_of ex_collab_header 4))
           then inserted_nodes (tracker (hasUses (ex_state\<lparr>lhs := True\<rparr>)))
                  (getPoints ex_collab_header
                     (getDefinitions ex_collab_header (currentPoint (ex_state\<lparr>lhs := True\<rparr>)))
                     (getValidField ex_collab_header (LocationSet_of ex_collab_header 4)))
           else {})"
    using inst [THEN conjunct1, rule_format, OF ty] .
  moreover have "getField ex_collab_header
                  (getValidField ex_collab_header (LocationSet_of ex_collab_header 4)) ''f'' = [491]"
    "getValidField ex_collab_header (LocationSet_of ex_collab_header 4) = [49]"
    "LocationSet_of ex_collab_header 4 = [4]"
    "isFinalRead [] (Member 42 (PathExpression 41 ''h'') ''f'')"
    "\<not> isUnreachable ex_collab_header
         (getDefinitions ex_collab_header (currentPoint (ex_state\<lparr>lhs := True\<rparr>)))"
    "\<not> isEmpty ex_collab_header [49]"
    "used (hasUses (ex_state\<lparr>lhs := True\<rparr>)) = {}"
    by (simp_all add: ex_collab_header_def ex_collab_def ex_state_def ex_no_uses_def
        ex_written_by_def)
  moreover have "inserted_nodes (tracker (hasUses (ex_state\<lparr>lhs := True\<rparr>)))
                  (getPoints ex_collab_header
                     (getDefinitions ex_collab_header (currentPoint (ex_state\<lparr>lhs := True\<rparr>)))
                     [49]) = {N_Stmt ex_assign_const}"
    by (auto simp: inserted_nodes_def ex_collab_header_def ex_collab_def ex_state_def
        ex_no_uses_def ex_written_by_def overwrites_def isActive_def SliceTracker_default_def
        pp_last_def beforeStart_def)
  moreover note inst [THEN conjunct2] sz
  ultimately show ?thesis unfolding ex_h_f_def ex_h_def by simp
qed


section \<open>Functions that may not return a value\<close>

text \<open>
  Claim C5. When the visit of the body of a function has ended, the visit of the function
  ends too, and what it emits after the body is: \<open>ERR_INSUFFICIENT\<close> for the function if and
  only if the return type is not void and the definitions at the point reached after the
  body are not marked unreachable, followed by warnings about out parameters only. So a
  function returning void never gets this error.
\<close>

theorem Function_return_check:
  assumes "visit_stmt E (N_Decl (Function i name rt ps body) # ctx) body
             (Function_entry s (Function i name rt ps body)) = Inr s1"
  shows
    "\<exists>s'. visit_decl E virt ctx (Function i name rt ps body) s = Inr s' \<and>
       diagnostics s' =
         diagnostics s1 @
           (if rt \<noteq> Type_Void \<and> \<not> isUnreachable E (getDefinitions E (currentPoint s1))
            then [insufficient_return (Function i name rt ps body)] else []) @
           concat (map (expected_out_param_warnings E name
                          (getDefinitions E (pp_after (Function_point s (Function i name rt ps body)))))
                     ps) \<and>
       (insufficient_return (Function i name rt ps body)
          \<in> set (drop (length (diagnostics s1)) (diagnostics s')) \<longleftrightarrow>
        rt \<noteq> Type_Void \<and> \<not> isUnreachable E (getDefinitions E (currentPoint s1)))"
proof -
  let ?f = "Function i name rt ps body"
  let ?ws = "concat (map (expected_out_param_warnings E name
                          (getDefinitions E (pp_after (Function_point s ?f)))) ps)"
  have no: "insufficient_return ?f \<notin> set ?ws"
    using expected_out_param_warnings_type [of "insufficient_return ?f" E name _ ps]
    by (auto simp: insufficient_return_def out_param_warning_def)
  show ?thesis
    using assms no
    by (simp add: checkOutParameters_diagnostics checkReturn_def report_def
        insufficient_return_def getCurrentDefinitions_def)
qed

theorem Function_return_check_witness:
  "(\<exists>s1. visit_stmt ex_collab_typed [N_Decl ex_g]
            (BlockStatement 9
               [Stat (IfStatement 8 (PathExpression 5 ''c'')
                        (ReturnStatement 7 (Some (Constant 6 1))) None)])
            (Function_entry ex_state ex_g) = Inr s1) \<and>
   (\<exists>s'. visit_decl ex_collab_typed False [] ex_g ex_state = Inr s' \<and>
      insufficient_return ex_g \<in> set (diagnostics s'))"
proof -
  obtain s1 where body:
    "visit_stmt ex_collab_typed
       [N_Decl (Function 10 ''g'' Type_Base []
          (BlockStatement 9
             [Stat (IfStatement 8 (PathExpression 5 ''c'')
                      (ReturnStatement 7 (Some (Constant 6 1))) None)]))]
       (BlockStatement 9
          [Stat (IfStatement 8 (PathExpression 5 ''c'')
                   (ReturnStatement 7 (Some (Constant 6 1))) None)])
       (Function_entry ex_state
          (Function 10 ''g'' Type_Base []
             (BlockStatement 9
                [Stat (IfStatement 8 (PathExpression 5 ''c'')
                         (ReturnStatement 7 (Some (Constant 6 1))) None)]))) = Inr s1"
    by (simp add: ex_collab_typed_def ex_collab_def ex_state_def ex_unwritten_def
        Function_entry_def Function_point_def reads_def registerUses_def setCurrent_def
        getCurrentDefinitions_def getReads_def getType_notNull_def report_def Let_def
        visit_opt_def containsBeforeStart_def)
  have reach: "\<not> isUnreachable ex_collab_typed (getDefinitions ex_collab_typed p)" for p
    by (simp add: ex_collab_typed_def ex_collab_def ex_unwritten_def)
  from Function_return_check [OF body, of False] reach [of "currentPoint s1"]
  obtain s' where
    "visit_decl ex_collab_typed False [] ex_g ex_state = Inr s'"
    "insufficient_return ex_g \<in> set (drop (length (diagnostics s1)) (diagnostics s'))"
    unfolding ex_g_def by auto
  then show ?thesis using body by (auto simp: ex_g_def dest: in_set_dropD)
qed

section \<open>Parsers\<close>

text \<open>
  Claim C6, as stated: for every parser the out parameters are checked against the join of
  the definitions at the \<open>accept\<close> state and of those at the \<open>reject\<close> state; hence a location
  written on only one of the two terminal paths is reported as potentially uninitialized.
  The second half fails for an out parameter whose storage has an empty type: the parser
  below writes \<open>md\<close> on the path to \<open>accept\<close> only, the definitions at \<open>reject\<close> still hold
  before-start, and \<^verbatim>\<open>checkOutParameters\<close> emits nothing.
\<close>

theorem Parser_out_parameters_counterexample:
  "\<not> containsBeforeStart
       (getPoints ex_collab_parser_empty
          (getDefinitions ex_collab_parser_empty (pp_node (N_Decl ex_accept)))
          (removeHeaders ex_collab_parser_empty 2)) \<and>
   containsBeforeStart
     (getPoints ex_collab_parser_empty
        (getDefinitions ex_collab_parser_empty (pp_node (N_Decl ex_reject)))
        (removeHeaders ex_collab_parser_empty 2)) \<and>
   getStorage ex_collab_parser_empty 2 = Some 2 \<and>
   \<not> isl (visit_decl ex_collab_parser_empty False [] ex_parser ex_state) \<and>
   diagnostics (projr (visit_decl ex_collab_parser_empty False [] ex_parser ex_state)) = []"
  by (simp add: ex_collab_parser_empty_def ex_collab_def ex_parser_defs_def ex_parser_def
      ex_state_def ex_no_uses_def ex_md_write_def ex_accept_def ex_reject_def reads_def
      registerUses_def setCurrent_def headerValidRead_def getType_notNull_def visit_opt_def
      visitVirtualMethods_def getDeclByName_def ParserState_accept_def ParserState_reject_def
      containsBeforeStart_def beforeStart_def pp_node_def checkOutParameters_def report_def
      Let_def)

text \<open>
  Claim C6, amended. For a parser whose virtual methods and states have been visited, the out
  parameters are checked against the join of the definitions at the \<open>accept\<close> state and of
  those at the \<open>reject\<close> state. Hence, the points of the join being those of either side
  (\<open>join_keeps_points\<close>), an Out or InOut parameter with storage gets the warning
  \<open>WARN_UNINITIALIZED_OUT_PARAM\<close> exactly when the type of its storage is not empty and the
  reaching points of the storage with the header locations removed contain before-start at
  \<open>accept\<close> or at \<open>reject\<close>, that is, when one of the two terminal paths leaves it unwritten;
  and the last nodes of the reaching points of the join for its full location set are in the
  used set of \<open>HasUses\<close>.
\<close>

theorem Parser_out_parameters:
  assumes "visitVirtualMethods
             (zip locals (map (visit_decl E True (N_Decl (P4Parser i name ps locals states) # ctx))
                            locals))
             (s\<lparr>currentPoint := pp_node (N_Decl (P4Parser i name ps locals states))\<rparr>) = Inr s1"
    and "seqE (map (visit_decl E False (N_Decl (P4Parser i name ps locals states) # ctx)) states)
           s1 = Inr s2"
    and "getDeclByName locals states ParserState_accept = Some accept"
    and "getDeclByName locals states ParserState_reject = Some reject"
    and "acceptdefs = getDefinitions E (pp_node (N_Decl accept))"
    and "rejectdefs = getDefinitions E (pp_node (N_Decl reject))"
    and "outputDefs = joinDefinitions E acceptdefs rejectdefs"
    and "join_keeps_points E"
  shows
    "visit_decl E virt ctx (P4Parser i name ps locals states) s =
       Inr (checkOutParameters E name ps outputDefs (s2\<lparr>unreachable := False\<rparr>)) \<and>
     (\<forall>j n d storage.
        Parameter j n d \<in> set ps \<and> (d = Out \<or> d = InOut) \<and> getStorage E j = Some storage \<and>
        out_param_warning name (Parameter j n d) \<notin> set (diagnostics s2) \<longrightarrow>
        (out_param_warning name (Parameter j n d)
           \<in> set (diagnostics (checkOutParameters E name ps outputDefs (s2\<lparr>unreachable := False\<rparr>)))
         \<longleftrightarrow>
         \<not> storageTypeIsEmpty E storage \<and>
         (containsBeforeStart (getPoints E acceptdefs (removeHeaders E storage)) \<or>
          containsBeforeStart (getPoints E rejectdefs (removeHeaders E storage)))) \<and>
        inserted_nodes (tracker (hasUses s2)) (getPoints E outputDefs (LocationSet_of E storage))
          \<subseteq> used (hasUses (checkOutParameters E name ps outputDefs (s2\<lparr>unreachable := False\<rparr>))))"
proof (intro conjI allI impI)
  show "visit_decl E virt ctx (P4Parser i name ps locals states) s =
       Inr (checkOutParameters E name ps outputDefs (s2\<lparr>unreachable := False\<rparr>))"
    using assms(1-7) by simp
next
  fix j n d storage
  assume a: "Parameter j n d \<in> set ps \<and> (d = Out \<or> d = InOut) \<and> getStorage E j = Some storage \<and>
        out_param_warning name (Parameter j n d) \<notin> set (diagnostics s2)"
  have jn: "containsBeforeStart (getPoints E outputDefs (removeHeaders E storage)) \<longleftrightarrow>
      containsBeforeStart (getPoints E acceptdefs (removeHeaders E storage)) \<or>
      containsBeforeStart (getPoints E rejectdefs (removeHeaders E storage))"
    using assms(7,8) by (simp add: join_keeps_points_def containsBeforeStart_def)
  show "out_param_warning name (Parameter j n d)
           \<in> set (diagnostics (checkOutParameters E name ps outputDefs (s2\<lparr>unreachable := False\<rparr>)))
         \<longleftrightarrow>
         \<not> storageTypeIsEmpty E storage \<and>
         (containsBeforeStart (getPoints E acceptdefs (removeHeaders E storage)) \<or>
          containsBeforeStart (getPoints E rejectdefs (removeHeaders E storage)))"
    using a jn by (simp add: checkOutParameters_warning_mem)
  have "used (HasUses_add (hasUses (s2\<lparr>unreachable := False\<rparr>))
                (getPoints E outputDefs (LocationSet_of E storage)))
          \<subseteq> used (hasUses (checkOutParameters E name ps outputDefs (s2\<lparr>unreachable := False\<rparr>)))"
    using checkOutParameters_used [OF conjunct1 [OF a] conjunct1 [OF conjunct2 [OF a]]
        conjunct1 [OF conjunct2 [OF conjunct2 [OF a]]], of "s2\<lparr>unreachable := False\<rparr>"
        outputDefs name] .
  then show "inserted_nodes (tracker (hasUses s2)) (getPoints E outputDefs (LocationSet_of E storage))
          \<subseteq> used (hasUses (checkOutParameters E name ps outputDefs (s2\<lparr>unreachable := False\<rparr>)))"
    by (simp add: HasUses_add_inserted)
qed

theorem Parser_out_parameters_witness:
  "join_keeps_points ex_collab_parser \<and>
   getDeclByName [] [ParserState 3 ''start'' [Stat ex_md_write] None, ex_accept, ex_reject]
     ParserState_accept = Some ex_accept \<and>
   getDeclByName [] [ParserState 3 ''start'' [Stat ex_md_write] None, ex_accept, ex_reject]
     ParserState_reject = Some ex_reject \<and>
   \<not> containsBeforeStart
       (getPoints ex_collab_parser (getDefinitions ex_collab_parser (pp_node (N_Decl ex_accept)))
          (removeHeaders ex_collab_parser 2)) \<and>
   containsBeforeStart
     (getPoints ex_collab_parser (getDefinitions ex_collab_parser (pp_node (N_Decl ex_reject)))
        (removeHeaders ex_collab_parser 2)) \<and>
   (\<exists>s'. visit_decl ex_collab_parser False [] ex_parser ex_state = Inr s' \<and>
      out_param_warning ''prs'' (Parameter 2 ''md'' Out) \<in> set (diagnostics s') \<and>
      N_Stmt ex_md_write \<in> used (hasUses s'))"
proof -
  let ?states = "[ParserState 3 ''start'' [Stat ex_md_write] None, ex_accept, ex_reject]"
  let ?p = "P4Parser 1 ''prs'' [Parameter 2 ''md'' Out] [] ?states"
  let ?out = "joinDefinitions ex_collab_parser
                (getDefinitions ex_collab_parser (pp_node (N_Decl ex_accept)))
                (getDefinitions ex_collab_parser (pp_node (N_Decl ex_reject)))"
  have jk: "join_keeps_points ex_collab_parser"
    by (auto simp: join_keeps_points_def ex_collab_parser_def ex_collab_def)
  have vm: "visitVirtualMethods (zip [] (map (visit_decl ex_collab_parser True (N_Decl ?p # [])) []))
              (ex_state\<lparr>currentPoint := pp_node (N_Decl ?p)\<rparr>) =
            Inr (ex_state\<lparr>currentPoint := pp_node (N_Decl ?p)\<rparr>)"
    by (simp add: visitVirtualMethods_def ex_state_def)
  obtain s2 where st:
    "seqE (map (visit_decl ex_collab_parser False (N_Decl ?p # [])) ?states)
       (ex_state\<lparr>currentPoint := pp_node (N_Decl ?p)\<rparr>) = Inr s2"
    and d2: "diagnostics s2 = []" and t2: "tracker (hasUses s2) = SliceTracker_default"
    by (simp add: ex_collab_parser_def ex_collab_def ex_state_def ex_md_write_def ex_accept_def
        ex_reject_def reads_def registerUses_def setCurrent_def headerValidRead_def
        getType_notNull_def visit_opt_def ex_no_uses_def)
  have acc: "getDeclByName [] ?states ParserState_accept = Some ex_accept"
    and rej: "getDeclByName [] ?states ParserState_reject = Some ex_reject"
    by (simp_all add: getDeclByName_def ParserState_accept_def ParserState_reject_def
        ex_accept_def ex_reject_def)
  have pts: "\<not> containsBeforeStart
       (getPoints ex_collab_parser (getDefinitions ex_collab_parser (pp_node (N_Decl ex_accept)))
          (removeHeaders ex_collab_parser 2))"
    "containsBeforeStart
     (getPoints ex_collab_parser (getDefinitions ex_collab_parser (pp_node (N_Decl ex_reject)))
        (removeHeaders ex_collab_parser 2))"
    "getStorage ex_collab_parser 2 = Some 2" "\<not> storageTypeIsEmpty ex_collab_parser 2"
    by (simp_all add: ex_collab_parser_def ex_collab_def ex_parser_defs_def containsBeforeStart_def
        beforeStart_def pp_node_def ex_accept_def ex_reject_def)
  have ins: "N_Stmt ex_md_write
      \<in> inserted_nodes SliceTracker_default
          (getPoints ex_collab_parser ?out (LocationSet_of ex_collab_parser 2))"
    by (auto simp: inserted_nodes_def ex_collab_parser_def ex_collab_def ex_parser_defs_def
        overwrites_def isActive_def SliceTracker_default_def pp_last_def pp_node_def
        ex_accept_def ex_reject_def)
  note inst = Parser_out_parameters [OF vm st acc rej refl refl refl jk, of False]
  have run: "visit_decl ex_collab_parser False [] ?p ex_state =
          Inr (checkOutParameters ex_collab_parser ''prs'' [Parameter 2 ''md'' Out] ?out
                 (s2\<lparr>unreachable := False\<rparr>))"
    using inst by (rule conjunct1)
  have "out_param_warning ''prs'' (Parameter 2 ''md'' Out)
          \<in> set (diagnostics (checkOutParameters ex_collab_parser ''prs'' [Parameter 2 ''md'' Out]
                 ?out (s2\<lparr>unreachable := False\<rparr>))) \<and>
        N_Stmt ex_md_write
          \<in> used (hasUses (checkOutParameters ex_collab_parser ''prs'' [Parameter 2 ''md'' Out]
                 ?out (s2\<lparr>unreachable := False\<rparr>)))"
    using inst [THEN conjunct2, rule_format, of 2 "''md''" Out 2] pts d2 t2 ins by auto
  with run have "\<exists>s'. visit_decl ex_collab_parser False [] ?p ex_state = Inr s' \<and>
      out_param_warning ''prs'' (Parameter 2 ''md'' Out) \<in> set (diagnostics s') \<and>
      N_Stmt ex_md_write \<in> used (hasUses s')"
    by simp
  then show ?thesis using jk acc rej pts by (simp add: ex_parser_def)
qed


section \<open>Members of a header stack\<close>

text \<open>
  Claim C7. For a member \<open>b.m\<close> whose base has stack type (and that is neither a member of a
  type name, nor a table hit or action run, nor a method), once the base has been visited
  with read set \<open>storage\<close>: for \<open>next\<close> and \<open>last\<close> the read set of the member is \<open>storage\<close>
  itself, it is registered as a use with the report of uninitialized values switched off, and
  the only diagnostic is \<open>WARN_UNINITIALIZED\<close> "reading uninitialized value", emitted exactly
  for \<open>next\<close> outside a left-hand side; for \<open>lastIndex\<close> the read set is the array-last-index
  projection of \<open>storage\<close>, registered with the report switched off, and nothing is emitted.
  Registered as a use means: when the member is a final read, the current definitions are
  reachable and the read set is not empty, the last nodes of the reaching points of the read
  set (those the slice tracker does not skip) are added to the used set of \<open>HasUses\<close>, and
  otherwise the used set is unchanged.
\<close>

theorem Member_of_stack:
  assumes "visit_expr E (N_Expr (Member i b m) # ctx) b s = Inr s1"
    and "\<not> is_TypeNameExpression b"
    and "\<not> isHit E (Member i b m)" "\<not> isActionRun E (Member i b m)"
    and "getType E (Member i b m) = Some ty" "ty \<noteq> Type_Method"
    and "readLocations s1 b = Some storage" "getType E b = Some Type_Stack"
    and "\<not> unreachable s1"
  shows
    "(m = Type_Stack_next \<or> m = Type_Stack_last \<longrightarrow>
        (\<exists>s'. visit_expr E ctx (Member i b m) s = Inr s' \<and>
           readLocations s' (Member i b m) = Some storage \<and>
           registerUses E ctx (Member i b m) False
             (s1\<lparr>readLocations := (readLocations s1)(Member i b m \<mapsto> storage)\<rparr>) =
               Inr (s'\<lparr>diagnostics := diagnostics s1\<rparr>) \<and>
           diagnostics s' =
             diagnostics s1 @
               (if m = Type_Stack_next \<and> \<not> lhs s1 then [stack_next_warning (Member i b m)]
                else []) \<and>
           used (hasUses s') =
             used (hasUses s1) \<union>
               (if isFinalRead ctx (Member i b m) \<and>
                   \<not> isUnreachable E (getDefinitions E (currentPoint s1)) \<and> \<not> isEmpty E storage
                then inserted_nodes (tracker (hasUses s1))
                       (getPoints E (getDefinitions E (currentPoint s1)) storage)
                else {}))) \<and>
     (m = Type_Stack_lastIndex \<longrightarrow>
        (\<exists>s'. visit_expr E ctx (Member i b m) s = Inr s' \<and>
           readLocations s' (Member i b m) = Some (getArrayLastIndex E storage) \<and>
           registerUses E ctx (Member i b m) False
             (s1\<lparr>readLocations := (readLocations s1)(Member i b m \<mapsto> getArrayLastIndex E storage)\<rparr>) =
               Inr s' \<and>
           diagnostics s' = diagnostics s1 \<and>
           used (hasUses s') =
             used (hasUses s1) \<union>
               (if isFinalRead ctx (Member i b m) \<and>
                   \<not> isUnreachable E (getDefinitions E (currentPoint s1)) \<and>
                   \<not> isEmpty E (getArrayLastIndex E storage)
                then inserted_nodes (tracker (hasUses s1))
                       (getPoints E (getDefinitions E (currentPoint s1)) (getArrayLastIndex E storage))
                else {})))"
proof -
  have step: "visit_expr E ctx (Member i b m) s = Member_after_base E ctx (Member i b m) b m s1"
    using assms(1) by simp
  have names: "Type_Stack_lastIndex \<noteq> Type_Stack_next" "Type_Stack_lastIndex \<noteq> Type_Stack_last"
    "Type_Stack_last \<noteq> Type_Stack_next"
    by (simp_all add: Type_Stack_next_def Type_Stack_last_def Type_Stack_lastIndex_def)
  show ?thesis
    unfolding step
    using assms(2-) names
    by (auto simp: Member_after_base_def getType_notNull_def getReads_nonNull_def reads_def
        registerUses_no_report report_def stack_next_warning_def HasUses_add_inserted)
qed

theorem Member_of_stack_witness:
  "visit_expr ex_collab_stack [N_Expr (Member 4 ex_hs ''next'')] ex_hs ex_state = Inr ex_state_hs \<and>
   containsBeforeStart
     (getPoints ex_collab_stack (getDefinitions ex_collab_stack (currentPoint ex_state_hs)) [1]) \<and>
   (\<exists>s'. visit_expr ex_collab_stack [] (Member 4 ex_hs ''next'') ex_state = Inr s' \<and>
      readLocations s' (Member 4 ex_hs ''next'') = Some [1] \<and>
      diagnostics s' = [stack_next_warning (Member 4 ex_hs ''next'')] \<and>
      used (hasUses s') = {N_Stmt ex_assign_const}) \<and>
   visit_expr ex_collab_stack [N_Expr (Member 4 ex_hs ''last'')] ex_hs ex_state = Inr ex_state_hs \<and>
   (\<exists>s'. visit_expr ex_collab_stack [] (Member 4 ex_hs ''last'') ex_state = Inr s' \<and>
      readLocations s' (Member 4 ex_hs ''last'') = Some [1] \<and> diagnostics s' = [] \<and>
      used (hasUses s') = {N_Stmt ex_assign_const}) \<and>
   visit_expr ex_collab_stack [N_Expr (Member 4 ex_hs ''lastIndex'')] ex_hs ex_state = Inr ex_state_hs \<and>
   (\<exists>s'. visit_expr ex_collab_stack [] (Member 4 ex_hs ''lastIndex'') ex_state = Inr s' \<and>
      readLocations s' (Member 4 ex_hs ''lastIndex'') = Some [18] \<and> diagnostics s' = [] \<and>
      used (hasUses s') = {N_Stmt ex_assign_const})"
proof -
  have base: "visit_expr ex_collab_stack [N_Expr (Member 4 ex_hs m)] ex_hs ex_state = Inr ex_state_hs"
    for m
    by (simp add: ex_collab_stack_def ex_collab_def ex_hs_def ex_state_hs_def ex_state_def
        reads_def registerUses_def)
  have hyps: "\<not> is_TypeNameExpression ex_hs" "\<not> isHit ex_collab_stack (Member 4 ex_hs m)"
    "\<not> isActionRun ex_collab_stack (Member 4 ex_hs m)"
    "getType ex_collab_stack (Member 4 ex_hs m) = Some Type_Header" "Type_Header \<noteq> Type_Method"
    "readLocations ex_state_hs ex_hs = Some [1]" "getType ex_collab_stack ex_hs = Some Type_Stack"
    "\<not> unreachable ex_state_hs" for m
    by (simp_all add: ex_collab_stack_def ex_collab_def ex_hs_def ex_state_hs_def ex_state_def)
  have ins: "inserted_nodes (tracker (hasUses ex_state_hs))
               (getPoints ex_collab_stack (getDefinitions ex_collab_stack (currentPoint ex_state_hs)) ls)
               = (if ls = [] then {} else {N_Stmt ex_assign_const})" for ls
    by (auto simp: inserted_nodes_def ex_state_hs_def ex_state_def ex_no_uses_def overwrites_def
        isActive_def SliceTracker_default_def pp_last_def beforeStart_def ex_collab_stack_def
        ex_collab_def ex_written_by_def)
  have env: "\<not> isUnreachable ex_collab_stack (getDefinitions ex_collab_stack (currentPoint ex_state_hs))"
    "\<not> isEmpty ex_collab_stack [1]" "getArrayLastIndex ex_collab_stack [1] = [18]"
    "\<not> isEmpty ex_collab_stack [18]" "used (hasUses ex_state_hs) = {}" "\<not> lhs ex_state_hs"
    "diagnostics ex_state_hs = []"
    "containsBeforeStart
       (getPoints ex_collab_stack (getDefinitions ex_collab_stack (currentPoint ex_state_hs)) [1])"
    by (simp_all add: ex_collab_stack_def ex_collab_def ex_written_by_def ex_state_hs_def
        ex_state_def ex_no_uses_def containsBeforeStart_def)
  note inst = Member_of_stack [where ctx = "[]", OF base hyps]
  show ?thesis
    using inst [of "''next''"] inst [of "''last''"] inst [of "''lastIndex''"] base env
    by (auto simp: Type_Stack_next_def Type_Stack_last_def Type_Stack_lastIndex_def ins)
qed


section \<open>registerUses\<close>

text \<open>
  Claim C8. \<^verbatim>\<open>registerUses(expr, report)\<close> changes nothing when \<open>expr\<close> is not a final read
  (the child of a \<open>Member\<close>, or the left child of an \<open>ArrayIndex\<close>), when the current
  definitions are unreachable, or when the read set recorded for \<open>expr\<close> is null or empty.
  Otherwise it emits \<open>WARN_UNINITIALIZED_USE\<close> exactly when \<open>report\<close> holds, \<open>lhs\<close> does not,
  and the reaching points contain before-start (the expression being typed, as in a
  type-checked program), with the message "may be uninitialized" for a base type and
  "may not be completely initialized" for any other type, and in both cases it adds the
  reaching points to \<open>HasUses\<close>: the used set afterwards is the used set before together
  with \<open>inserted_nodes\<close>, the last node of every reaching point that the slice tracker does
  not skip (before-start has no last node and adds nothing), and the tracker is unchanged.
\<close>

theorem registerUses_cases:
  "(\<not> isFinalRead ctx e \<or> isUnreachable E (getDefinitions E (currentPoint s)) \<or>
    readLocations s e = None \<or> (\<exists>rd. readLocations s e = Some rd \<and> isEmpty E rd) \<longrightarrow>
      registerUses E ctx e rep s = Inr s) \<and>
   (isFinalRead ctx e \<and> \<not> isUnreachable E (getDefinitions E (currentPoint s)) \<and>
    readLocations s e = Some rd \<and> \<not> isEmpty E rd \<and>
    points = getPoints E (getDefinitions E (currentPoint s)) rd \<longrightarrow>
      (rep \<and> \<not> lhs s \<and> containsBeforeStart points \<and> getType E e = Some ty \<longrightarrow>
         registerUses E ctx e rep s =
           Inr (s\<lparr>diagnostics := diagnostics s @
                    [Diagnostic WARN_UNINITIALIZED_USE
                       (if ty = Type_Base then ''%1% may be uninitialized''
                        else ''%1% may not be completely initialized'') [A_Expr e]],
                  hasUses := HasUses_add (hasUses s) points\<rparr>)) \<and>
      (\<not> (rep \<and> \<not> lhs s \<and> containsBeforeStart points) \<longrightarrow>
         registerUses E ctx e rep s = Inr (s\<lparr>hasUses := HasUses_add (hasUses s) points\<rparr>)) \<and>
      (registerUses E ctx e rep s = Inr s' \<longrightarrow>
         used (hasUses s') = used (hasUses s) \<union> inserted_nodes (tracker (hasUses s)) points \<and>
         tracker (hasUses s') = tracker (hasUses s))) \<and>
   (isFinalRead ctx e \<longleftrightarrow>
      \<not> (\<exists>i b m rest. ctx = N_Expr (Member i b m) # rest) \<and>
      \<not> (\<exists>i r rest. ctx = N_Expr (ArrayIndex i e r) # rest)) \<and>
   used (HasUses_add H points) = used H \<union> inserted_nodes (tracker H) points \<and>
   (n \<in> inserted_nodes (tracker H) points \<longleftrightarrow>
      (\<exists>p \<in> set points. \<not> overwrites (tracker H) p \<and> pp_last p = Some n))"
proof (intro conjI impI)
  assume "\<not> isFinalRead ctx e \<or> isUnreachable E (getDefinitions E (currentPoint s)) \<or>
    readLocations s e = None \<or> (\<exists>rd. readLocations s e = Some rd \<and> isEmpty E rd)"
  then show "registerUses E ctx e rep s = Inr s" by (rule registerUses_noop)
next
  assume a: "isFinalRead ctx e \<and> \<not> isUnreachable E (getDefinitions E (currentPoint s)) \<and>
    readLocations s e = Some rd \<and> \<not> isEmpty E rd \<and>
    points = getPoints E (getDefinitions E (currentPoint s)) rd"
    and b: "rep \<and> \<not> lhs s \<and> containsBeforeStart points \<and> getType E e = Some ty"
  show "registerUses E ctx e rep s =
           Inr (s\<lparr>diagnostics := diagnostics s @
                    [Diagnostic WARN_UNINITIALIZED_USE
                       (if ty = Type_Base then ''%1% may be uninitialized''
                        else ''%1% may not be completely initialized'') [A_Expr e]],
                  hasUses := HasUses_add (hasUses s) points\<rparr>)"
    using a b registerUses_warns [of ctx e E s rd rep ty] by simp
next
  assume a: "isFinalRead ctx e \<and> \<not> isUnreachable E (getDefinitions E (currentPoint s)) \<and>
    readLocations s e = Some rd \<and> \<not> isEmpty E rd \<and>
    points = getPoints E (getDefinitions E (currentPoint s)) rd"
    and b: "\<not> (rep \<and> \<not> lhs s \<and> containsBeforeStart points)"
  show "registerUses E ctx e rep s = Inr (s\<lparr>hasUses := HasUses_add (hasUses s) points\<rparr>)"
    using a b registerUses_quiet [of ctx e E s rd rep] by simp
next
  assume a: "isFinalRead ctx e \<and> \<not> isUnreachable E (getDefinitions E (currentPoint s)) \<and>
    readLocations s e = Some rd \<and> \<not> isEmpty E rd \<and>
    points = getPoints E (getDefinitions E (currentPoint s)) rd"
    and r: "registerUses E ctx e rep s = Inr s'"
  show "used (hasUses s') = used (hasUses s) \<union> inserted_nodes (tracker (hasUses s)) points"
    using registerUses_used [OF r] a by simp
  show "tracker (hasUses s') = tracker (hasUses s)"
    by (rule registerUses_frame(7) [OF r])
next
  show "isFinalRead ctx e \<longleftrightarrow>
      \<not> (\<exists>i b m rest. ctx = N_Expr (Member i b m) # rest) \<and>
      \<not> (\<exists>i r rest. ctx = N_Expr (ArrayIndex i e r) # rest)"
    by (rule isFinalRead_iff)
next
  show "used (HasUses_add H points) = used H \<union> inserted_nodes (tracker H) points"
    by (rule HasUses_add_inserted)
next
  show "n \<in> inserted_nodes (tracker H) points \<longleftrightarrow>
      (\<exists>p \<in> set points. \<not> overwrites (tracker H) p \<and> pp_last p = Some n)"
    by (simp add: inserted_nodes_def)
qed

theorem registerUses_cases_witness:
  "registerUses ex_collab_written [] ex_x True ex_state_x =
     Inr (ex_state_x
            \<lparr>diagnostics := [Diagnostic WARN_UNINITIALIZED_USE ''%1% may be uninitialized'' [A_Expr ex_x]],
             hasUses := \<lparr>used = {N_Stmt ex_assign_const}, tracker = SliceTracker_default\<rparr>\<rparr>) \<and>
   registerUses ex_collab_written [] ex_x False ex_state_x =
     Inr (ex_state_x\<lparr>hasUses := \<lparr>used = {N_Stmt ex_assign_const}, tracker = SliceTracker_default\<rparr>\<rparr>) \<and>
   registerUses ex_collab_written [N_Expr (Member 2 ex_x ''f'')] ex_x True ex_state_x = Inr ex_state_x \<and>
   used (HasUses_add (hasUses ex_state_x) [beforeStart, [Some (N_Stmt ex_assign_const)]]) =
     {N_Stmt ex_assign_const}"
proof -
  have pts: "getPoints ex_collab_written (getDefinitions ex_collab_written (currentPoint ex_state_x)) [1]
               = [beforeStart, [Some (N_Stmt ex_assign_const)]]"
    by (simp add: ex_collab_written_def ex_collab_def ex_written_by_def)
  have ins: "inserted_nodes (tracker (hasUses ex_state_x)) [beforeStart, [Some (N_Stmt ex_assign_const)]]
               = {N_Stmt ex_assign_const}"
    by (auto simp: inserted_nodes_def ex_state_x_def ex_state_def ex_no_uses_def overwrites_def
        isActive_def SliceTracker_default_def pp_last_def beforeStart_def)
  have add: "HasUses_add (hasUses ex_state_x) [beforeStart, [Some (N_Stmt ex_assign_const)]] =
               \<lparr>used = {N_Stmt ex_assign_const}, tracker = SliceTracker_default\<rparr>"
    by (simp add: ex_state_x_def ex_state_def ex_no_uses_def overwrites_def
        isActive_def SliceTracker_default_def pp_last_def beforeStart_def)
  have hyps: "isFinalRead [] ex_x \<and>
      \<not> isUnreachable ex_collab_written (getDefinitions ex_collab_written (currentPoint ex_state_x)) \<and>
      readLocations ex_state_x ex_x = Some [1] \<and> \<not> isEmpty ex_collab_written [1] \<and>
      [beforeStart, [Some (N_Stmt ex_assign_const)]] =
        getPoints ex_collab_written (getDefinitions ex_collab_written (currentPoint ex_state_x)) [1]"
    using pts
    by (simp add: ex_collab_written_def ex_collab_def ex_written_by_def ex_state_x_def ex_state_def)
  have warn: "True \<and> \<not> lhs ex_state_x \<and>
      containsBeforeStart [beforeStart, [Some (N_Stmt ex_assign_const)]] \<and>
      getType ex_collab_written ex_x = Some Type_Base"
    by (simp add: ex_collab_written_def ex_collab_def ex_state_x_def ex_state_def
        containsBeforeStart_def)
  note inst = registerUses_cases [where E = ex_collab_written and e = ex_x and s = ex_state_x
      and rd = "[1]" and points = "[beforeStart, [Some (N_Stmt ex_assign_const)]]"
      and ty = Type_Base and H = "hasUses ex_state_x"]
  have a: "registerUses ex_collab_written [] ex_x True ex_state_x =
     Inr (ex_state_x
            \<lparr>diagnostics := diagnostics ex_state_x @
               [Diagnostic WARN_UNINITIALIZED_USE
                  (if Type_Base = Type_Base then ''%1% may be uninitialized''
                   else ''%1% may not be completely initialized'') [A_Expr ex_x]],
             hasUses := HasUses_add (hasUses ex_state_x) [beforeStart, [Some (N_Stmt ex_assign_const)]]\<rparr>)"
    using inst [where ctx = "[]" and rep = True, THEN conjunct2, THEN conjunct1, rule_format,
        OF hyps, THEN conjunct1, rule_format, OF warn] .
  have b: "registerUses ex_collab_written [] ex_x False ex_state_x =
     Inr (ex_state_x\<lparr>hasUses := HasUses_add (hasUses ex_state_x)
                                   [beforeStart, [Some (N_Stmt ex_assign_const)]]\<rparr>)"
    using inst [where ctx = "[]" and rep = False, THEN conjunct2, THEN conjunct1, rule_format,
        OF hyps, THEN conjunct2, THEN conjunct1, rule_format] by simp
  have c: "registerUses ex_collab_written [N_Expr (Member 2 ex_x ''f'')] ex_x True ex_state_x =
             Inr ex_state_x"
    using inst [where ctx = "[N_Expr (Member 2 ex_x ''f'')]" and rep = True, THEN conjunct1]
    by simp
  have d: "used (HasUses_add (hasUses ex_state_x) [beforeStart, [Some (N_Stmt ex_assign_const)]]) =
             {N_Stmt ex_assign_const}"
    using inst [where ctx = "[]" and rep = True, THEN conjunct2, THEN conjunct2, THEN conjunct2,
        THEN conjunct1] ins
    by (simp add: ex_state_x_def ex_state_def ex_no_uses_def)
  show ?thesis using a b c d add by (simp add: ex_state_x_def ex_state_def)
qed


text \<open>
  Claim C9. For an Out or InOut parameter whose storage has an empty type,
  \<^verbatim>\<open>checkOutParameters\<close> emits no \<open>WARN_UNINITIALIZED_OUT_PARAM\<close> for it, whatever its reaching
  points are; its reaching points have been added to \<open>HasUses\<close> before the test of the type.
\<close>

theorem checkOutParameters_empty_type:
  assumes "Parameter i n d \<in> set ps" "d = Out \<or> d = InOut" "getStorage E i = Some storage"
    and "storageTypeIsEmpty E storage"
    and "out_param_warning block (Parameter i n d) \<notin> set (diagnostics s)"
  shows "out_param_warning block (Parameter i n d)
           \<notin> set (diagnostics (checkOutParameters E block ps defs s)) \<and>
         hasUses (checkOutParameter E block defs s (Parameter i n d)) =
           HasUses_add (hasUses s) (getPoints E defs (LocationSet_of E storage)) \<and>
         used (HasUses_add (hasUses s) (getPoints E defs (LocationSet_of E storage)))
           \<subseteq> used (hasUses (checkOutParameters E block ps defs s))"
  using assms checkOutParameters_used [OF assms(1-3), of s defs block]
  by (simp add: checkOutParameters_warning_mem checkOutParameter_hasUses)

theorem checkOutParameters_empty_type_witness:
  "containsBeforeStart
     (getPoints (ex_collab (ex_written_by ex_assign_const) (\<lambda>i. Some i) (\<lambda>st. True) (\<lambda>e. None) (\<lambda>e. None))
        (ex_written_by ex_assign_const [])
        (removeHeaders (ex_collab (ex_written_by ex_assign_const) (\<lambda>i. Some i) (\<lambda>st. True) (\<lambda>e. None) (\<lambda>e. None)) 1)) \<and>
   diagnostics (checkOutParameters
                  (ex_collab (ex_written_by ex_assign_const) (\<lambda>i. Some i) (\<lambda>st. True) (\<lambda>e. None) (\<lambda>e. None))
                  ''c'' [Parameter 1 ''p'' InOut] (ex_written_by ex_assign_const []) ex_state) = [] \<and>
   N_Stmt ex_assign_const
     \<in> used (hasUses (checkOutParameters
                  (ex_collab (ex_written_by ex_assign_const) (\<lambda>i. Some i) (\<lambda>st. True) (\<lambda>e. None) (\<lambda>e. None))
                  ''c'' [Parameter 1 ''p'' InOut] (ex_written_by ex_assign_const []) ex_state))"
  using checkOutParameters_empty_type [where
      E = "ex_collab (ex_written_by ex_assign_const) (\<lambda>i. Some i) (\<lambda>st. True) (\<lambda>e. None) (\<lambda>e. None)"
      and i = 1 and n = "''p''" and d = InOut and ps = "[Parameter 1 ''p'' InOut]" and storage = 1
      and block = "''c''" and s = ex_state and defs = "ex_written_by ex_assign_const []"]
  by (simp add: ex_collab_def ex_written_by_def ex_state_def containsBeforeStart_def
      checkOutParameters_def report_def Let_def ex_no_uses_def beforeStart_def
      overwrites_def isActive_def SliceTracker_default_def pp_last_def)

section \<open>The tracker after a slice\<close>

text \<open>
  Claim C10. After the visit of any slice expression has ended, the tracker is inactive:
  \<^verbatim>\<open>doneWatching\<close> runs at the end of the visit whether or not this slice had activated the
  tracker. So for a slice on the left of an assignment whose base is itself a slice, the
  visit of the inner slice starts with the tracker active for the outer one and ends with
  the tracker inactive, and the outer slice registers its own uses with an inactive tracker.
\<close>

theorem Slice_leaves_tracker_inactive:
  "(visit_expr E ctx (Slice sl) s = Inr s' \<longrightarrow>
      tracker (hasUses s') = SliceTracker_default \<and> \<not> isActive (tracker (hasUses s'))) \<and>
   (visit_expr E ctx (Slice (MkSlice i (Slice inner) h l)) s = Inr s' \<and>
    findContext_AssignmentStatement ctx \<noteq> None \<and> lhs s \<longrightarrow>
      (\<exists>s1 s2 storage s4.
         s1 = s\<lparr>hasUses := (hasUses s)\<lparr>tracker := SliceTracker_of (MkSlice i (Slice inner) h l)\<rparr>,
                lhs := False\<rparr> \<and>
         isActive (tracker (hasUses s1)) \<and>
         visit_expr E (N_Expr (Slice (MkSlice i (Slice inner) h l)) # ctx) (Slice inner) s1 = Inr s2 \<and>
         \<not> isActive (tracker (hasUses s2)) \<and>
         registerUses E ctx (Slice (MkSlice i (Slice inner) h l)) True
           (s2\<lparr>readLocations :=
                 (readLocations s2)(Slice (MkSlice i (Slice inner) h l) \<mapsto> storage)\<rparr>) = Inr s4 \<and>
         s' = s4\<lparr>lhs := True, hasUses := doneWatching (hasUses s4)\<rparr>))"
proof (intro conjI impI)
  assume "visit_expr E ctx (Slice sl) s = Inr s'"
  then show "tracker (hasUses s') = SliceTracker_default" by (rule visit_slice_tracker)
  then show "\<not> isActive (tracker (hasUses s'))"
    by (simp add: isActive_def SliceTracker_default_def)
next
  let ?outer = "MkSlice i (Slice inner) h l"
  assume a: "visit_expr E ctx (Slice ?outer) s = Inr s' \<and>
    findContext_AssignmentStatement ctx \<noteq> None \<and> lhs s"
  then obtain s2 storage s4 where
    v: "visit_expr E (N_Expr (Slice ?outer) # ctx) (Slice inner)
          (s\<lparr>hasUses := (hasUses s)\<lparr>tracker := SliceTracker_of ?outer\<rparr>, lhs := False\<rparr>) = Inr s2"
    and r: "registerUses E ctx (Slice ?outer) True
              (s2\<lparr>readLocations := (readLocations s2)(Slice ?outer \<mapsto> storage)\<rparr>) = Inr s4"
    and e: "s' = s4\<lparr>lhs := True, hasUses := doneWatching (hasUses s4)\<rparr>"
    using visit_slice_steps [of E ctx i "Slice inner" h l s s'] by blast
  have "\<not> isActive (tracker (hasUses s2))"
    using visit_slice_tracker [OF v] by (simp add: isActive_def SliceTracker_default_def)
  then show "\<exists>s1 s2 storage s4.
         s1 = s\<lparr>hasUses := (hasUses s)\<lparr>tracker := SliceTracker_of ?outer\<rparr>, lhs := False\<rparr> \<and>
         isActive (tracker (hasUses s1)) \<and>
         visit_expr E (N_Expr (Slice ?outer) # ctx) (Slice inner) s1 = Inr s2 \<and>
         \<not> isActive (tracker (hasUses s2)) \<and>
         registerUses E ctx (Slice ?outer) True
           (s2\<lparr>readLocations := (readLocations s2)(Slice ?outer \<mapsto> storage)\<rparr>) = Inr s4 \<and>
         s' = s4\<lparr>lhs := True, hasUses := doneWatching (hasUses s4)\<rparr>"
    using v r e by (auto simp: isActive_def SliceTracker_of_def)
qed

theorem Slice_leaves_tracker_inactive_witness:
  "findContext_AssignmentStatement [N_Stmt ex_nested_assign] \<noteq> None \<and>
   lhs (ex_state\<lparr>lhs := True\<rparr>) \<and>
   (\<exists>s'. visit_expr ex_collab_nested [N_Stmt ex_nested_assign] (Slice ex_nested)
            (ex_state\<lparr>lhs := True\<rparr>) = Inr s' \<and>
      \<not> isActive (tracker (hasUses s')) \<and>
      N_Stmt ex_prev \<in> used (hasUses s'))"
proof -
  obtain s' where run:
    "visit_expr ex_collab_nested [N_Stmt ex_nested_assign]
       (Slice (MkSlice 37 (Slice (MkSlice 36 (PathExpression 35 ''a'') 7 0)) 3 0))
       (ex_state\<lparr>lhs := True\<rparr>) = Inr s'"
    and u: "N_Stmt ex_prev \<in> used (hasUses s')"
    by (simp add: ex_collab_nested_def ex_collab_def ex_state_def ex_no_uses_def ex_prev_def
        ex_nested_assign_def ex_nested_def reads_def registerUses_def getReads_def
        getReads_nonNull_def getCurrentDefinitions_def watchForOverwrites_def doneWatching_def
        isActive_def SliceTracker_default_def SliceTracker_of_def overwrites_def
        overwritesPrevious_def isBeforeStart_def pp_last_def containsBeforeStart_def
        beforeStart_def Let_def)
  have c: "findContext_AssignmentStatement [N_Stmt ex_nested_assign] \<noteq> None"
    by (simp add: ex_nested_assign_def)
  note inst = Slice_leaves_tracker_inactive [where E = ex_collab_nested
      and ctx = "[N_Stmt ex_nested_assign]" and s = "ex_state\<lparr>lhs := True\<rparr>" and s' = s'
      and sl = "MkSlice 37 (Slice (MkSlice 36 (PathExpression 35 ''a'') 7 0)) 3 0"
      and i = 37 and inner = "MkSlice 36 (PathExpression 35 ''a'') 7 0" and h = 3 and l = 0]
  have l: "lhs (ex_state\<lparr>lhs := True\<rparr>)" by simp
  have "\<not> isActive (tracker (hasUses s'))"
    using inst [THEN conjunct1, rule_format, OF run] by (rule conjunct2)
  moreover have "\<exists>(sa :: nat list FindUninitialized) (sb :: nat list FindUninitialized).
      isActive (tracker (hasUses sa)) \<and> \<not> isActive (tracker (hasUses sb))"
    using inst [THEN conjunct2, rule_format, OF conjI [OF run conjI [OF c l]]] by blast
  ultimately show ?thesis using run u c l unfolding ex_nested_def by blast
qed

end
